theory Spec2Isabelle
  imports Complex_Main "HOL-Library.Word" "HOL-Library.Product_Lexorder"
begin

section \<open>JavaScript strings and errors\<close>

text \<open>
  A JavaScript string is a sequence of UTF-16 code units; \<open>length\<close>, \<open>substring\<close>, \<open>trim\<close>
  and a regular expression without the \<open>u\<close> flag all work on code units. ASCII literals
  of the source are written \<open>js ''...''\<close>.
\<close>

type_synonym code_unit = "16 word"
type_synonym jsstring = "code_unit list"

definition js :: "string \<Rightarrow> jsstring" where
  "js s = map of_char s"

text \<open>
  A thrown value. \<open>Error\<close> is \<open>new Error(msg)\<close>; \<open>TypeError\<close> is what the engine throws
  when a method is read from \<open>undefined\<close>. \<open>error_string\<close> is the template-literal
  conversion \<open>`${error}`\<close>.
\<close>

datatype error = Error jsstring | TypeError jsstring

fun error_string :: "error \<Rightarrow> jsstring" where
  "error_string (Error m) = js ''Error: '' @ m"
| "error_string (TypeError m) = js ''TypeError: '' @ m"

section \<open>EmbeddingService\<close>

subsection \<open>preprocessText\<close>

text \<open>
  \<open>is_space\<close> is the class \<open>\s\<close>, which is also the set that \<open>trim\<close> strips: the
  ECMAScript WhiteSpace and LineTerminator code points. \<open>is_word\<close> is \<open>\w\<close>,
  \<open>is_basic_punct\<close> the literal characters of the class
  \<^verbatim>\<open>[^\w\s.,!?;:()\-'"]\<close> (0x27 is the apostrophe, 0x22 the double quote).
\<close>

definition is_space :: "code_unit \<Rightarrow> bool" where
  "is_space c \<longleftrightarrow>
     (0x09 \<le> c \<and> c \<le> 0x0D) \<or> c = 0x20 \<or> c = 0xA0 \<or> c = 0x1680 \<or>
     (0x2000 \<le> c \<and> c \<le> 0x200A) \<or> c = 0x2028 \<or> c = 0x2029 \<or> c = 0x202F \<or>
     c = 0x205F \<or> c = 0x3000 \<or> c = 0xFEFF"

definition is_word :: "code_unit \<Rightarrow> bool" where
  "is_word c \<longleftrightarrow>
     (0x41 \<le> c \<and> c \<le> 0x5A) \<or> (0x61 \<le> c \<and> c \<le> 0x7A) \<or>
     (0x30 \<le> c \<and> c \<le> 0x39) \<or> c = 0x5F"

definition is_basic_punct :: "code_unit \<Rightarrow> bool" where
  "is_basic_punct c \<longleftrightarrow>
     c = 0x2E \<or> c = 0x2C \<or> c = 0x21 \<or> c = 0x3F \<or> c = 0x3B \<or> c = 0x3A \<or>
     c = 0x28 \<or> c = 0x29 \<or> c = 0x2D \<or> c = 0x27 \<or> c = 0x22"

definition kept :: "code_unit \<Rightarrow> bool" where
  "kept c \<longleftrightarrow> is_word c \<or> is_space c \<or> is_basic_punct c"

text \<open>\<^verbatim>\<open>text.trim()\<close>\<close>

definition trim :: "jsstring \<Rightarrow> jsstring" where
  "trim s = rev (dropWhile is_space (rev (dropWhile is_space s)))"

text \<open>\<^verbatim>\<open>.replace(/\s+/g, ' ')\<close>: every maximal run of whitespace becomes one space.\<close>

function replace_ws_runs :: "jsstring \<Rightarrow> jsstring" where
  "replace_ws_runs [] = []"
| "replace_ws_runs (c # cs) =
     (if is_space c then 0x20 # replace_ws_runs (dropWhile is_space cs)
      else c # replace_ws_runs cs)"
  by pat_completeness auto
termination
  by (relation "measure length") (auto simp: less_Suc_eq_le length_dropWhile_le)

text \<open>\<^verbatim>\<open>.replace(/[^\w\s.,!?;:()\-'"]/g, '')\<close>\<close>

definition remove_special :: "jsstring \<Rightarrow> jsstring" where
  "remove_special s = filter kept s"

text \<open>
  \<^verbatim>\<open>.toLowerCase()\<close>. It is applied last, to a string that holds only code units
  of the kept class, all of them ASCII after the whitespace replacement; on ASCII it maps
  \<open>A\<close>..\<open>Z\<close> to \<open>a\<close>..\<open>z\<close> and nothing else.
\<close>

definition lower_unit :: "code_unit \<Rightarrow> code_unit" where
  "lower_unit c = (if 0x41 \<le> c \<and> c \<le> 0x5A then c + 0x20 else c)"

definition toLowerCase :: "jsstring \<Rightarrow> jsstring" where
  "toLowerCase s = map lower_unit s"

definition preprocessText :: "jsstring \<Rightarrow> jsstring" where
  "preprocessText text = toLowerCase (remove_special (replace_ws_runs (trim text)))"

text \<open>What the whitespace steps establish: no whitespace at either end, and every
  whitespace code unit is a single space followed by a non-space.\<close>

fun single_spaced :: "jsstring \<Rightarrow> bool" where
  "single_spaced [] = True"
| "single_spaced [c] = (\<not> is_space c)"
| "single_spaced (c # d # cs) =
     ((if is_space c then c = 0x20 \<and> \<not> is_space d else True) \<and> single_spaced (d # cs))"

subsection \<open>Model loading and encoding\<close>

text \<open>
  The loaded model is the function that \<open>pipeline(...)\<close> resolves to: it maps the cleaned
  text to the embedding, or throws. Numbers are modelled as reals.
\<close>

type_synonym pipeline = "jsstring \<Rightarrow> error + real list"

record EmbeddingService =
  model :: "pipeline option"
  modelName :: jsstring
  isLoading :: bool

definition new_EmbeddingService :: EmbeddingService where
  "new_EmbeddingService =
     \<lparr>model = None, modelName = js ''Xenova/all-MiniLM-L6-v2'', isLoading = False\<rparr>"

text \<open>
  \<open>initializeModel\<close> is an async function with one suspension point, the
  \<open>await pipeline(...)\<close>. It is split there. \<open>initializeModel_enter\<close> is the code that
  runs synchronously when the function is called: either it returns at once (the promise
  is already resolved when the call expression returns), or it sets \<open>isLoading\<close> and
  starts the load. \<open>initializeModel_resume\<close> is the code that runs when the load settles:
  the assignment or the \<open>catch\<close>, then the \<open>finally\<close>.
\<close>

datatype init_status = InitReturned | InitAwaitingLoad

definition initializeModel_enter :: "EmbeddingService \<Rightarrow> init_status \<times> EmbeddingService" where
  "initializeModel_enter s =
     (if model s \<noteq> None \<or> isLoading s then (InitReturned, s)
      else (InitAwaitingLoad, s\<lparr>isLoading := True\<rparr>))"

definition initializeModel_resume ::
  "error + pipeline \<Rightarrow> EmbeddingService \<Rightarrow> (error + unit) \<times> EmbeddingService" where
  "initializeModel_resume outcome s =
     (case outcome of
        Inr m \<Rightarrow> (Inr (), s\<lparr>model := Some m, isLoading := False\<rparr>)
      | Inl e \<Rightarrow> (Inl (Error (js ''Failed to load embedding model: '' @ error_string e)),
                  s\<lparr>isLoading := False\<rparr>))"

text \<open>A call that nothing interleaves with: the load settles before anything else runs.\<close>

definition initializeModel ::
  "(jsstring \<Rightarrow> error + pipeline) \<Rightarrow> EmbeddingService \<Rightarrow> (error + unit) \<times> EmbeddingService" where
  "initializeModel load s =
     (case initializeModel_enter s of
        (InitReturned, s') \<Rightarrow> (Inr (), s')
      | (InitAwaitingLoad, s') \<Rightarrow> initializeModel_resume (load (modelName s')) s')"

text \<open>
  \<open>generateEmbedding\<close> from its second \<open>if (!this.model)\<close> on. The text is \<open>None\<close> when
  the caller passed \<open>undefined\<close>; then \<open>text.trim\<close> throws inside the \<open>try\<close>.
\<close>

definition generateEmbedding_checked :: "EmbeddingService \<Rightarrow> jsstring option \<Rightarrow> error + real list" where
  "generateEmbedding_checked s text =
     (case model s of
        None \<Rightarrow> Inl (Error (js ''Embedding model not initialized''))
      | Some m \<Rightarrow>
          (case (case text of
                   None \<Rightarrow> Inl (TypeError (js ''Cannot read properties of undefined (reading trim)''))
                 | Some t \<Rightarrow> m (preprocessText t)) of
             Inl e \<Rightarrow> Inl (Error (js ''Failed to generate embedding: '' @ error_string e))
           | Inr v \<Rightarrow> Inr v))"

definition generateEmbedding ::
  "(jsstring \<Rightarrow> error + pipeline) \<Rightarrow> EmbeddingService \<Rightarrow> jsstring option \<Rightarrow>
     (error + real list) \<times> EmbeddingService" where
  "generateEmbedding load s text =
     (if model s = None then
        (case initializeModel load s of
           (Inl e, s') \<Rightarrow> (Inl e, s')
         | (Inr _, s') \<Rightarrow> (generateEmbedding_checked s' text, s'))
      else (generateEmbedding_checked s text, s))"

subsection \<open>Callers that interleave\<close>

text \<open>
  One process serves many connections, so calls interleave at the suspension points. An
  event is one uninterrupted run of code: a caller invoking \<open>initializeModel\<close> or
  \<open>generateEmbedding\<close> (up to its first suspension), a suspended \<open>generateEmbedding\<close>
  resuming after its \<open>await this.initializeModel()\<close>, or the load settling. The system
  records how many loads were started, who awaits the load, who awaits an already resolved
  \<open>initializeModel()\<close>, and what each caller got.
\<close>

datatype event =
    Call_initializeModel nat
  | Call_generateEmbedding nat "jsstring option"
  | Resume nat
  | Settle "error + pipeline"

datatype outcome =
    InitResolved
  | InitRejected error
  | Embedded "real list"
  | EmbedRejected error

record system =
  svc :: EmbeddingService
  loads :: nat
  loader :: "(nat \<times> jsstring option option) option"
  suspended :: "(nat \<times> jsstring option) list"
  log :: "(nat \<times> outcome) list"

definition embed_outcome :: "error + real list \<Rightarrow> outcome" where
  "embed_outcome r = (case r of Inl e \<Rightarrow> EmbedRejected e | Inr v \<Rightarrow> Embedded v)"

fun step :: "event \<Rightarrow> system \<Rightarrow> system" where
  "step (Call_initializeModel c) y =
     (case initializeModel_enter (svc y) of
        (InitReturned, s') \<Rightarrow> y\<lparr>svc := s', log := log y @ [(c, InitResolved)]\<rparr>
      | (InitAwaitingLoad, s') \<Rightarrow> y\<lparr>svc := s', loads := loads y + 1, loader := Some (c, None)\<rparr>)"
| "step (Call_generateEmbedding c text) y =
     (if model (svc y) = None then
        (case initializeModel_enter (svc y) of
           (InitReturned, s') \<Rightarrow> y\<lparr>svc := s', suspended := suspended y @ [(c, text)]\<rparr>
         | (InitAwaitingLoad, s') \<Rightarrow>
             y\<lparr>svc := s', loads := loads y + 1, loader := Some (c, Some text)\<rparr>)
      else y\<lparr>log := log y @ [(c, embed_outcome (generateEmbedding_checked (svc y) text))]\<rparr>)"
| "step (Resume c) y =
     (case map_of (suspended y) c of
        None \<Rightarrow> y
      | Some text \<Rightarrow>
          y\<lparr>suspended := filter (\<lambda>p. fst p \<noteq> c) (suspended y),
            log := log y @ [(c, embed_outcome (generateEmbedding_checked (svc y) text))]\<rparr>)"
| "step (Settle result) y =
     (case loader y of
        None \<Rightarrow> y
      | Some (c, k) \<Rightarrow>
          (case initializeModel_resume result (svc y) of
             (r, s') \<Rightarrow>
               y\<lparr>svc := s', loader := None,
                 log := log y @
                   [(c, case r of
                          Inl e \<Rightarrow> (case k of None \<Rightarrow> InitRejected e | Some _ \<Rightarrow> EmbedRejected e)
                        | Inr _ \<Rightarrow> (case k of
                                     None \<Rightarrow> InitResolved
                                   | Some text \<Rightarrow> embed_outcome (generateEmbedding_checked s' text)))]\<rparr>))"

definition run :: "event list \<Rightarrow> system \<Rightarrow> system" where
  "run evs y = fold step evs y"

definition start :: system where
  "start = \<lparr>svc = new_EmbeddingService, loads = 0, loader = None, suspended = [], log = []\<rparr>"

fun is_Settle :: "event \<Rightarrow> bool" where
  "is_Settle (Settle r) = True"
| "is_Settle e = False"

text \<open>The invariant of the loading guard, after \<open>settled\<close> settlings: \<open>isLoading\<close> is set
  exactly while a caller awaits the load, and every load started but the one in flight has
  settled.\<close>

definition load_inv :: "nat \<Rightarrow> system \<Rightarrow> bool" where
  "load_inv settled y \<longleftrightarrow>
     (isLoading (svc y) \<longleftrightarrow> loader y \<noteq> None) \<and>
     loads y + (if loader y = None then 1 else 0) \<le> settled + 1"

section \<open>Similarity\<close>




text \<open>The magnitude of a vector, to state what the loop computes.\<close>

definition dot :: "real list \<Rightarrow> real list \<Rightarrow> real" where
  "dot a b = (\<Sum>(x, y) \<leftarrow> zip a b. x * y)"

definition magnitude :: "real list \<Rightarrow> real" where
  "magnitude v = sqrt (dot v v)"

section \<open>The essays table and SupabaseService\<close>

text \<open>
  A row of \<open>essays\<close>. The columns \<open>college\<close>, \<open>prompt\<close>, \<open>structure_analysis\<close>,
  \<open>metadata\<close> and the two timestamps are passed through by every query and read by none;
  they are left out. \<open>eid\<close> and \<open>etype\<close> are the columns \<open>id\<close> and \<open>type\<close>. An embedding is a \<open>vector(384)\<close>
  or NULL.
\<close>

record Essay =
  eid :: jsstring
  title :: "jsstring option"
  content :: jsstring
  etype :: jsstring
  topics :: "jsstring list"
  embedding :: "real list option"

text \<open>
  A \<open>float8\<close> of the database: a number or NaN (rounding and the infinities are left
  out). A distance or a similarity can be NaN, and the database compares and sorts NaN as
  greater than every number and equal to itself. \<open>pg_gt\<close> is its \<^verbatim>\<open>>\<close>,
  \<open>pg_one_minus\<close> is \<open>1 - x\<close>, \<open>order_key\<close> gives the position in an ascending
  \<open>ORDER BY\<close>.
\<close>

datatype pgfloat = Num real | NaN

fun pg_gt :: "pgfloat \<Rightarrow> pgfloat \<Rightarrow> bool" where
  "pg_gt (Num x) (Num y) = (x > y)"
| "pg_gt NaN (Num y) = True"
| "pg_gt a NaN = False"

fun pg_one_minus :: "pgfloat \<Rightarrow> pgfloat" where
  "pg_one_minus (Num x) = Num (1 - x)"
| "pg_one_minus NaN = NaN"

fun order_key :: "pgfloat \<Rightarrow> nat \<times> real" where
  "order_key (Num x) = (0, x)"
| "order_key NaN = (1, 0)"

text \<open>
  The order in which similarities leave an ascending sort by distance: a number comes
  before every number not above it and before NaN; NaN comes before NaN only.
\<close>

fun sim_before :: "pgfloat \<Rightarrow> pgfloat \<Rightarrow> bool" where
  "sim_before (Num x) (Num y) = (x \<ge> y)"
| "sim_before a NaN = True"
| "sim_before NaN (Num y) = False"

type_synonym match = "Essay \<times> pgfloat"

text \<open>
  The SQL function \<open>match_essays\<close>. The operator \<^verbatim>\<open><=>\<close> of the vector extension is
  the parameter \<open>vdist\<close>. The \<open>WHERE\<close> clause keeps the rows with an embedding whose
  similarity \<open>1 - vdist\<close> is above the threshold by the database's comparison,
  \<open>ORDER BY\<close> sorts them by distance, \<open>LIMIT\<close> cuts the list. Rows of equal distance
  keep their table order here. \<open>match_count\<close> is an \<open>int\<close> of 32 bits: a value outside
  its range is an error, and so is a negative \<open>LIMIT\<close>. The table has an approximate
  index on the embedding: \<open>reached\<close> says which rows the scan visits for the query, all of
  them when the scan is sequential. The two \<open>DEFAULT\<close>s, 0.78 and 5, apply to an argument
  that the caller leaves out (\<open>None\<close>).
\<close>

definition similarity :: "(real list \<Rightarrow> real list \<Rightarrow> pgfloat) \<Rightarrow> real list \<Rightarrow> Essay \<Rightarrow> pgfloat" where
  "similarity vdist query_embedding e = pg_one_minus (vdist (the (embedding e)) query_embedding)"

definition match_essays ::
  "(real list \<Rightarrow> real list \<Rightarrow> pgfloat) \<Rightarrow> (Essay \<Rightarrow> bool) \<Rightarrow> Essay list \<Rightarrow> real list \<Rightarrow>
     real option \<Rightarrow> int option \<Rightarrow> jsstring + match list" where
  "match_essays vdist reached table query_embedding match_threshold match_count =
     (let threshold = (case match_threshold of None \<Rightarrow> 78 / 100 | Some t \<Rightarrow> t);
          count = (case match_count of None \<Rightarrow> 5 | Some n \<Rightarrow> n)
      in if count < - 2147483648 \<or> 2147483647 < count then
           Inl (js ''value out of range for type integer'')
         else if count < 0 then Inl (js ''LIMIT must not be negative'')
         else Inr
           (take (nat count)
             (map (\<lambda>e. (e, similarity vdist query_embedding e))
               (sort_key (\<lambda>e. order_key (vdist (the (embedding e)) query_embedding))
                 (filter (\<lambda>e. reached e \<and> embedding e \<noteq> None \<and>
                               pg_gt (similarity vdist query_embedding e) (Num threshold))
                    table)))))"

text \<open>
  The cosine distance that \<^verbatim>\<open><=>\<close> computes (index \<open>vector_cosine_ops\<close>): one minus the
  dot product over the product of the magnitudes, and NaN when a magnitude is zero.
\<close>

definition cosine_distance :: "real list \<Rightarrow> real list \<Rightarrow> pgfloat" where
  "cosine_distance a b =
     (if magnitude a = 0 \<or> magnitude b = 0 then NaN
      else Num (1 - dot a b / (magnitude a * magnitude b)))"

text \<open>
  What an awaited query gives: the pair \<open>{data, error}\<close>, or an exception. A read of the
  store can fail in both ways; \<open>fault\<close> says whether and how it does. \<open>read_array\<close> is
  the database reading the text of an array literal between its braces: the elements, or
  an error for a malformed literal.
\<close>

record 'rows pg_result =
  data :: "'rows option"
  error :: "jsstring option"

datatype store_fault = ErrorResult jsstring | Thrown error

record database =
  essays :: "Essay list"
  fault :: "store_fault option"
  reached :: "real list \<Rightarrow> Essay \<Rightarrow> bool"
  read_array :: "jsstring \<Rightarrow> jsstring + jsstring list"

definition respond :: "database \<Rightarrow> jsstring + 'rows \<Rightarrow> error + 'rows pg_result" where
  "respond d r =
     (case fault d of
        Some (Thrown e) \<Rightarrow> Inl e
      | Some (ErrorResult m) \<Rightarrow> Inr \<lparr>data = None, error = Some m\<rparr>
      | None \<Rightarrow>
          (case r of
             Inl m \<Rightarrow> Inr \<lparr>data = None, error = Some m\<rparr>
           | Inr rows \<Rightarrow> Inr \<lparr>data = Some rows, error = None\<rparr>))"

text \<open>
  \<open>SupabaseService.searchSimilarEssays\<close>. The call \<open>rpc('match_essays', ...)\<close> always
  passes \<open>threshold\<close> and \<open>limit\<close>, whose defaults are 0.7 and 5. The builder method
  \<open>eq('type', essayType)\<close>, chained on the call when \<open>essayType\<close> is truthy and not
  \<open>'all'\<close>, filters the rows that the function returns. The whole body is in a
  \<open>try\<close> whose \<open>catch\<close> returns \<open>[]\<close>; the \<open>_try\<close> function is the body.
\<close>

definition eq_type :: "jsstring option \<Rightarrow> match list \<Rightarrow> match list" where
  "eq_type essayType rows =
     (case essayType of
        None \<Rightarrow> rows
      | Some t \<Rightarrow> (if t \<noteq> [] \<and> t \<noteq> js ''all'' then filter (\<lambda>r. etype (fst r) = t) rows else rows))"

definition SupabaseService_searchSimilarEssays_try ::
  "(real list \<Rightarrow> real list \<Rightarrow> pgfloat) \<Rightarrow> database \<Rightarrow> real list \<Rightarrow> jsstring option \<Rightarrow>
     int option \<Rightarrow> real option \<Rightarrow> error + match list" where
  "SupabaseService_searchSimilarEssays_try vdist d queryEmbedding essayType limit threshold =
     (let limit' = (case limit of None \<Rightarrow> 5 | Some n \<Rightarrow> n);
          threshold' = (case threshold of None \<Rightarrow> 7 / 10 | Some t \<Rightarrow> t)
      in case respond d
                (map_sum id (eq_type essayType)
                   (match_essays vdist (reached d queryEmbedding) (essays d) queryEmbedding
                      (Some threshold') (Some limit'))) of
           Inl e \<Rightarrow> Inl e
         | Inr res \<Rightarrow>
             (if error res \<noteq> None then Inr []
              else Inr (case data res of None \<Rightarrow> [] | Some rows \<Rightarrow> rows)))"

definition SupabaseService_searchSimilarEssays ::
  "(real list \<Rightarrow> real list \<Rightarrow> pgfloat) \<Rightarrow> database \<Rightarrow> real list \<Rightarrow> jsstring option \<Rightarrow>
     int option \<Rightarrow> real option \<Rightarrow> match list" where
  "SupabaseService_searchSimilarEssays vdist d queryEmbedding essayType limit threshold =
     (case SupabaseService_searchSimilarEssays_try vdist d queryEmbedding essayType limit threshold of
        Inl e \<Rightarrow> []
      | Inr rows \<Rightarrow> rows)"

text \<open>
  \<open>SupabaseService.getEssaysByTopic\<close>, with \<open>limit\<close> at its default 10 (the agent, its
  only caller, passes none). \<open>contains('topics', [topic])\<close>, \<open>eq\<close> and \<open>limit\<close> are
  parts of one select, so both filters come before the limit. The client writes the array
  as the topic between braces, unescaped, and the database reads that literal: a row is
  kept when its topics contain every element read, and an undefined topic is written as
  the empty text. An error result is thrown, and nothing here catches an exception of the
  query.
\<close>

definition getEssaysByTopic :: "database \<Rightarrow> jsstring option \<Rightarrow> jsstring option \<Rightarrow> error + Essay list" where
  "getEssaysByTopic d topic essayType =
     (case respond d
             (map_sum id
                (\<lambda>wanted. take 10
                   (filter (\<lambda>e. list_all (\<lambda>t. t \<in> set (topics e)) wanted \<and>
                                 (case essayType of
                                    None \<Rightarrow> True
                                  | Some t \<Rightarrow> (if t \<noteq> [] then etype e = t else True)))
                      (essays d)))
                (read_array d (case topic of None \<Rightarrow> [] | Some t \<Rightarrow> t))) of
        Inl e \<Rightarrow> Inl e
      | Inr res \<Rightarrow>
          (case error res of
             Some m \<Rightarrow> Inl (Error (js ''Failed to get essays by topic: '' @ m))
           | None \<Rightarrow> Inr (case data res of None \<Rightarrow> [] | Some rows \<Rightarrow> rows)))"

section \<open>WritingSpecialistAgent\<close>

subsection \<open>Messages, tools and the collaborators\<close>

text \<open>
  The \<open>input\<close> of a tool invocation is an object written by the language model. The
  fields are the properties that \<open>handleToolCall\<close> reads; \<open>None\<close> is a property that
  is absent (\<open>undefined\<close>). A property that is present has the JSON type of its schema;
  \<open>arg_query\<close> is \<open>input.query\<close>, and so on.
\<close>

record tool_input =
  arg_essay_text :: "jsstring option"
  arg_analysis_type :: "jsstring option"
  arg_query :: "jsstring option"
  arg_essay_type :: "jsstring option"
  arg_limit :: "int option"
  arg_topic :: "jsstring option"

datatype content_block =
    TextBlock jsstring
  | ToolUseBlock jsstring jsstring tool_input
  | ToolResultBlock jsstring jsstring
  | OtherBlock

text \<open>\<open>content.find(c => c.type === 'tool_use')\<close> and \<open>content.find(c => c.type === 'text')\<close>:
  the first block of the kind, if any. A tool use gives its \<open>id\<close>, \<open>name\<close> and \<open>input\<close>.\<close>

fun find_tool_use :: "content_block list \<Rightarrow> (jsstring \<times> jsstring \<times> tool_input) option" where
  "find_tool_use [] = None"
| "find_tool_use (ToolUseBlock i n inp # bs) = Some (i, n, inp)"
| "find_tool_use (b # bs) = find_tool_use bs"

fun find_text :: "content_block list \<Rightarrow> jsstring option" where
  "find_text [] = None"
| "find_text (TextBlock t # bs) = Some t"
| "find_text (b # bs) = find_text bs"

text \<open>A tool schema: the name, each property with its \<open>enum\<close> if it has one, and the
  required properties. The descriptions are left out.\<close>

record tool_schema =
  tool_name :: jsstring
  properties :: "(jsstring \<times> jsstring list option) list"
  required :: "jsstring list"

definition tools :: "tool_schema list" where
  "tools =
     [\<lparr>tool_name = js ''analyze_essay'',
       properties =
         [(js ''essay_text'', None),
          (js ''analysis_type'',
             Some [js ''quick_check'', js ''deep_analysis'', js ''structure_analysis''])],
       required = [js ''essay_text'', js ''analysis_type'']\<rparr>,
      \<lparr>tool_name = js ''search_similar_essays'',
       properties =
         [(js ''query'', None),
          (js ''essay_type'',
             Some [js ''personal_statement'', js ''supplemental'', js ''common_app'', js ''all'']),
          (js ''limit'', None)],
       required = [js ''query'']\<rparr>,
      \<lparr>tool_name = js ''get_essay_examples'',
       properties =
         [(js ''topic'', None),
          (js ''essay_type'',
             Some [js ''personal_statement'', js ''supplemental'', js ''common_app''])],
       required = [js ''topic'']\<rparr>]"

datatype role = User | Assistant

datatype message_content = Plain jsstring | Blocks "content_block list"

record request =
  model_id :: jsstring
  max_tokens :: nat
  messages :: "(role \<times> message_content) list"
  request_tools :: "tool_schema list"

record essay_structure =
  hook :: jsstring
  exposition :: jsstring
  conflict :: jsstring
  learning :: jsstring
  conclusion :: jsstring

text \<open>\<open>EssayAnalysis\<close>; \<open>analysis_kind\<close> is the key \<open>type\<close>. The optional keys
  \<open>college\<close> and \<open>prompt\<close> are never set.\<close>

record EssayAnalysis =
  analysis_kind :: jsstring
  analysis_structure :: essay_structure
  analysis_topics :: "jsstring list"
  strengths :: "jsstring list"
  weaknesses :: "jsstring list"
  suggestions :: "jsstring list"

datatype tool_result =
    Analysis EssayAnalysis
  | Similar "match list"
  | Examples "Essay list"

text \<open>
  What the agent calls and does not define: \<open>anthropic.messages.create\<close> (a response's
  content, or an exception), \<open>pipeline(...)\<close>, the database behind the Supabase client
  with the distance operator of its vector extension, and \<open>JSON.stringify\<close>.
\<close>

record env =
  create :: "request \<Rightarrow> error + content_block list"
  pipeline_load :: "jsstring \<Rightarrow> error + pipeline"
  db :: database
  distance :: "real list \<Rightarrow> real list \<Rightarrow> pgfloat"
  JSON_stringify :: "tool_result \<Rightarrow> jsstring"

text \<open>
  The state one turn works on: the embedding service, and two traces kept for the
  statements below, the requests sent to the language model in order and the names of the
  tools that were run.
\<close>

record world =
  embeddingService :: EmbeddingService
  calls :: "request list"
  executed :: "jsstring list"

subsection \<open>The tools\<close>

text \<open>\<open>analyzeEssay\<close>. With \<open>essayText\<close> undefined, reading \<open>substring\<close> throws.\<close>

definition analyzeEssay :: "jsstring option \<Rightarrow> jsstring option \<Rightarrow> error + EssayAnalysis" where
  "analyzeEssay essayText analysisType =
     (case essayText of
        None \<Rightarrow> Inl (TypeError (js ''Cannot read properties of undefined (reading substring)''))
      | Some t \<Rightarrow>
          Inr \<lparr>analysis_kind = js ''personal_statement'',
               analysis_structure =
                 \<lparr>hook = take 100 t @ js ''...'',
                  exposition = js ''Analysis of exposition section...'',
                  conflict = js ''Analysis of conflict section...'',
                  learning = js ''Analysis of learning/growth section...'',
                  conclusion = js ''Analysis of conclusion...''\<rparr>,
               analysis_topics = [js ''identity'', js ''growth'', js ''challenges''],
               strengths = [js ''Strong hook'', js ''Clear narrative arc'', js ''Personal voice''],
               weaknesses =
                 [js ''Could use more specific examples'', js ''Conclusion could be stronger''],
               suggestions =
                 [js ''Add more concrete details'',
                  js ''Strengthen the conclusion with future goals'']\<rparr>)"

text \<open>The agent's \<open>searchSimilarEssays\<close>: the body of its \<open>try\<close>, then the function with
  the \<open>catch\<close> that returns \<open>[]\<close>.\<close>

definition searchSimilarEssays_try ::
  "env \<Rightarrow> EmbeddingService \<Rightarrow> jsstring option \<Rightarrow> jsstring option \<Rightarrow> int option \<Rightarrow>
     (error + match list) \<times> EmbeddingService" where
  "searchSimilarEssays_try env s query essayType limit =
     (let essayType' = (case essayType of None \<Rightarrow> js ''all'' | Some t \<Rightarrow> t);
          limit' = (case limit of None \<Rightarrow> 5 | Some n \<Rightarrow> n)
      in case generateEmbedding (pipeline_load env) s query of
           (Inl e, s') \<Rightarrow> (Inl e, s')
         | (Inr queryEmbedding, s') \<Rightarrow>
             (Inr (SupabaseService_searchSimilarEssays (distance env) (db env) queryEmbedding
                     (if essayType' = js ''all'' then None else Some essayType')
                     (Some limit') None),
              s'))"

definition searchSimilarEssays ::
  "env \<Rightarrow> EmbeddingService \<Rightarrow> jsstring option \<Rightarrow> jsstring option \<Rightarrow> int option \<Rightarrow>
     match list \<times> EmbeddingService" where
  "searchSimilarEssays env s query essayType limit =
     (case searchSimilarEssays_try env s query essayType limit of
        (Inl e, s') \<Rightarrow> ([], s')
      | (Inr similarEssays, s') \<Rightarrow> (similarEssays, s'))"

definition getEssayExamples :: "env \<Rightarrow> jsstring option \<Rightarrow> jsstring option \<Rightarrow> Essay list" where
  "getEssayExamples env topic essayType =
     (case getEssaysByTopic (db env) topic essayType of
        Inl e \<Rightarrow> []
      | Inr examples \<Rightarrow> examples)"

text \<open>\<open>handleToolCall\<close>: the \<open>switch\<close> on the tool name. Each case records the tool it
  runs; the default throws.\<close>

definition handleToolCall ::
  "env \<Rightarrow> world \<Rightarrow> jsstring \<Rightarrow> tool_input \<Rightarrow> (error + tool_result) \<times> world" where
  "handleToolCall env w toolName inp =
     (if toolName = js ''analyze_essay'' then
        (map_sum (\<lambda>e. e) Analysis (analyzeEssay (arg_essay_text inp) (arg_analysis_type inp)),
         w\<lparr>executed := executed w @ [toolName]\<rparr>)
      else if toolName = js ''search_similar_essays'' then
        (case searchSimilarEssays env (embeddingService w) (arg_query inp) (arg_essay_type inp) (arg_limit inp) of
           (similarEssays, s') \<Rightarrow>
             (Inr (Similar similarEssays),
              w\<lparr>embeddingService := s', executed := executed w @ [toolName]\<rparr>))
      else if toolName = js ''get_essay_examples'' then
        (Inr (Examples (getEssayExamples env (arg_topic inp) (arg_essay_type inp))),
         w\<lparr>executed := executed w @ [toolName]\<rparr>)
      else (Inl (Error (js ''Unknown tool: '' @ toolName)), w))"

subsection \<open>processMessage\<close>

definition prompt :: "jsstring \<Rightarrow> jsstring" where
  "prompt message =
     js ''You are a WritingSpecialist agent that helps students with college essays. You have access to a database of successful essays and can analyze writing, provide feedback, and suggest improvements.''
     @ [0x0A, 0x0A] @ js ''Current user message: '' @ message @ [0x0A, 0x0A]
     @ js ''Please help the user with their writing needs. If they provide an essay to analyze, use the analyze_essay function. If they want to see examples or find similar essays, use the appropriate search functions.''"

definition first_request :: "jsstring \<Rightarrow> request" where
  "first_request message =
     \<lparr>model_id = js ''claude-3-5-sonnet-20241022'', max_tokens = 4000,
      messages = [(User, Plain (prompt message))],
      request_tools = tools\<rparr>"

definition follow_up_request ::
  "jsstring \<Rightarrow> content_block list \<Rightarrow> jsstring \<Rightarrow> jsstring \<Rightarrow> request" where
  "follow_up_request message response_content tool_use_id result_json =
     \<lparr>model_id = js ''claude-3-5-sonnet-20241022'', max_tokens = 4000,
      messages =
        [(User, Plain message),
         (Assistant, Blocks response_content),
         (User, Blocks [ToolResultBlock tool_use_id result_json])],
      request_tools = tools\<rparr>"

definition tools_fallback :: jsstring where
  "tools_fallback = js ''I processed your request using my tools.''"

definition no_text_fallback :: jsstring where
  "no_text_fallback = js ''I apologize, but I could not generate a response.''"

definition apology :: jsstring where
  "apology = js ''I apologize, but I encountered an error processing your request. Please try again.''"

text \<open>The body of the \<open>try\<close> of \<open>processMessage\<close>: \<open>Inl\<close> is an exception that reaches
  the \<open>catch\<close>.\<close>

definition processMessage_try :: "env \<Rightarrow> world \<Rightarrow> jsstring \<Rightarrow> (error + jsstring) \<times> world" where
  "processMessage_try env w message =
     (let w1 = w\<lparr>calls := calls w @ [first_request message]\<rparr>
      in case create env (first_request message) of
           Inl e \<Rightarrow> (Inl e, w1)
         | Inr response \<Rightarrow>
             (case find_tool_use response of
                Some (tool_use_id, toolName, inp) \<Rightarrow>
                  (case handleToolCall env w1 toolName inp of
                     (Inl e, w2) \<Rightarrow> (Inl e, w2)
                   | (Inr toolResult, w2) \<Rightarrow>
                       (let followUp = follow_up_request message response tool_use_id
                                         (JSON_stringify env toolResult);
                            w3 = w2\<lparr>calls := calls w2 @ [followUp]\<rparr>
                        in case create env followUp of
                             Inl e \<Rightarrow> (Inl e, w3)
                           | Inr followUpResponse \<Rightarrow>
                               (Inr (case find_text followUpResponse of
                                       Some t \<Rightarrow> t
                                     | None \<Rightarrow> tools_fallback),
                                w3)))
              | None \<Rightarrow>
                  (Inr (case find_text response of Some t \<Rightarrow> t | None \<Rightarrow> no_text_fallback),
                   w1)))"

definition processMessage :: "env \<Rightarrow> world \<Rightarrow> jsstring \<Rightarrow> jsstring \<Rightarrow> jsstring \<times> world" where
  "processMessage env w message sessionId =
     (case processMessage_try env w message of
        (Inl e, w') \<Rightarrow> (apology, w')
      | (Inr answer, w') \<Rightarrow> (answer, w'))"

subsection \<open>Validation as the specification describes it\<close>

text \<open>
  The specification's \<open>validate\<close>, written from its words against the schemas above, to
  compare with \<open>handleToolCall\<close>: \<open>UnknownTool\<close> when the name is not registered,
  \<open>InvalidArguments\<close> when a required property is absent or a property with an
  \<open>enum\<close> has a value outside it.
\<close>

datatype validation = Valid | UnknownTool | InvalidArguments

definition arg_present :: "tool_input \<Rightarrow> jsstring \<Rightarrow> bool" where
  "arg_present inp p \<longleftrightarrow>
     (p = js ''essay_text'' \<and> arg_essay_text inp \<noteq> None) \<or>
     (p = js ''analysis_type'' \<and> arg_analysis_type inp \<noteq> None) \<or>
     (p = js ''query'' \<and> arg_query inp \<noteq> None) \<or>
     (p = js ''essay_type'' \<and> arg_essay_type inp \<noteq> None) \<or>
     (p = js ''limit'' \<and> arg_limit inp \<noteq> None) \<or>
     (p = js ''topic'' \<and> arg_topic inp \<noteq> None)"

definition arg_string :: "tool_input \<Rightarrow> jsstring \<Rightarrow> jsstring option" where
  "arg_string inp p =
     (if p = js ''essay_text'' then arg_essay_text inp
      else if p = js ''analysis_type'' then arg_analysis_type inp
      else if p = js ''query'' then arg_query inp
      else if p = js ''essay_type'' then arg_essay_type inp
      else if p = js ''topic'' then arg_topic inp
      else None)"

definition enum_ok :: "tool_input \<Rightarrow> jsstring \<times> jsstring list option \<Rightarrow> bool" where
  "enum_ok inp pe =
     (case snd pe of
        None \<Rightarrow> True
      | Some vs \<Rightarrow> (case arg_string inp (fst pe) of None \<Rightarrow> True | Some v \<Rightarrow> v \<in> set vs))"

definition spec_validate :: "jsstring \<Rightarrow> tool_input \<Rightarrow> validation" where
  "spec_validate toolName inp =
     (case find (\<lambda>t. tool_name t = toolName) tools of
        None \<Rightarrow> UnknownTool
      | Some t \<Rightarrow>
          (if list_all (arg_present inp) (required t) \<and> list_all (enum_ok inp) (properties t)
           then Valid else InvalidArguments))"

definition registered :: "jsstring \<Rightarrow> bool" where
  "registered toolName \<longleftrightarrow> toolName \<in> set (map tool_name tools)"

section \<open>Sample data\<close>

text \<open>
  Concrete collaborators for the instances below. Embeddings have 384 components; the
  samples lie in the plane of the first two. The sample model embeds every text as the
  first unit vector; the sample language model answers the first request of a turn with
  one scripted response and the follow-up with another.
\<close>

definition vec2 :: "real \<Rightarrow> real \<Rightarrow> real list" where
  "vec2 x y = x # y # replicate 382 0"

definition sample_pipeline :: pipeline where
  "sample_pipeline text = Inr (vec2 1 0)"

definition sample_essay :: "string \<Rightarrow> string \<Rightarrow> string list \<Rightarrow> real list option \<Rightarrow> Essay" where
  "sample_essay i t ts v =
     \<lparr>eid = js i, title = None, content = js ''An essay.'', etype = js t,
      topics = map js ts, embedding = v\<rparr>"

definition essay_A :: Essay where
  "essay_A = sample_essay ''A'' ''supplemental'' [''identity''] (Some (vec2 1 0))"

definition essay_B :: Essay where
  "essay_B = sample_essay ''B'' ''personal_statement'' [''ambition''] (Some (vec2 (4/5) (3/5)))"

definition essay_C :: Essay where
  "essay_C = sample_essay ''C'' ''personal_statement'' [''growth''] (Some (vec2 (21/29) (20/29)))"

definition essay_D :: Essay where
  "essay_D = sample_essay ''D'' ''common_app'' [''growth''] (Some (vec2 (3/5) (4/5)))"

definition essay_Z :: Essay where
  "essay_Z = sample_essay ''Z'' ''personal_statement'' [''identity''] (Some (vec2 0 0))"

definition essay_E :: Essay where
  "essay_E = sample_essay ''E'' ''other'' [] None"

text \<open>A sample reading of array literals: the elements between commas; an empty literal
  has no element, an empty element is malformed.\<close>

fun split_commas :: "jsstring \<Rightarrow> jsstring list" where
  "split_commas [] = [[]]"
| "split_commas (c # cs) =
     (if c = 0x2C then [] # split_commas cs
      else (case split_commas cs of [] \<Rightarrow> [[c]] | p # ps \<Rightarrow> (c # p) # ps))"

definition sample_read_array :: "jsstring \<Rightarrow> jsstring + jsstring list" where
  "sample_read_array t =
     (if t = [] then Inr []
      else if [] \<in> set (split_commas t) then Inl (js ''malformed array literal'')
      else Inr (split_commas t))"

definition sample_db :: "Essay list \<Rightarrow> database" where
  "sample_db rows =
     \<lparr>essays = rows, fault = None, reached = (\<lambda>q e. True), read_array = sample_read_array\<rparr>"

definition outage :: "store_fault \<Rightarrow> database" where
  "outage f =
     \<lparr>essays = [essay_A, essay_B], fault = Some f, reached = (\<lambda>q e. True),
      read_array = sample_read_array\<rparr>"

definition sample_stringify :: "tool_result \<Rightarrow> jsstring" where
  "sample_stringify r =
     (case r of
        Analysis a \<Rightarrow> js ''{analysis}''
      | Similar ms \<Rightarrow> (if ms = [] then js ''[]'' else js ''[similar]'')
      | Examples es \<Rightarrow> (if es = [] then js ''[]'' else js ''[examples]''))"

definition scripted ::
  "error + content_block list \<Rightarrow> error + content_block list \<Rightarrow> request \<Rightarrow>
     error + content_block list" where
  "scripted first second r = (if length (messages r) = 1 then first else second)"

definition sample_env ::
  "error + content_block list \<Rightarrow> error + content_block list \<Rightarrow> database \<Rightarrow> env" where
  "sample_env first second d =
     \<lparr>create = scripted first second, pipeline_load = (\<lambda>n. Inr sample_pipeline), db = d,
      distance = cosine_distance, JSON_stringify = sample_stringify\<rparr>"

definition new_world :: world where
  "new_world = \<lparr>embeddingService = new_EmbeddingService, calls = [], executed = []\<rparr>"

definition no_args :: tool_input where
  "no_args =
     \<lparr>arg_essay_text = None, arg_analysis_type = None, arg_query = None,
      arg_essay_type = None, arg_limit = None, arg_topic = None\<rparr>"

definition essay_args :: "string \<Rightarrow> string \<Rightarrow> tool_input" where
  "essay_args t a = no_args\<lparr>arg_essay_text := Some (js t), arg_analysis_type := Some (js a)\<rparr>"

definition tool_use :: "string \<Rightarrow> tool_input \<Rightarrow> content_block" where
  "tool_use n inp = ToolUseBlock (js ''toolu_01'') (js n) inp"

definition llm_overloaded :: error where
  "llm_overloaded = Error (js ''529 overloaded'')"

section \<open>Facts about the evaluation of the samples\<close>

lemmas sample_defs = sample_env_def scripted_def first_request_def follow_up_request_def
  new_world_def new_EmbeddingService_def no_args_def essay_args_def tool_use_def llm_overloaded_def
  sample_stringify_def sample_db_def outage_def

lemmas turn_defs = processMessage_def processMessage_try_def handleToolCall_def Let_def
  analyzeEssay_def apology_def tools_fallback_def js_def

lemmas store_defs = SupabaseService_searchSimilarEssays_def SupabaseService_searchSimilarEssays_try_def
  respond_def match_essays_def eq_type_def similarity_def Let_def sample_db_def sample_essay_def
  essay_A_def essay_B_def essay_C_def essay_D_def essay_E_def essay_Z_def

lemmas text_defs = preprocessText_def toLowerCase_def remove_special_def trim_def kept_def
  is_space_def is_word_def is_basic_punct_def lower_unit_def js_def

lemmas run_defs = run_def start_def new_EmbeddingService_def initializeModel_enter_def
  initializeModel_resume_def generateEmbedding_checked_def embed_outcome_def

section \<open>Cosine similarity\<close>





section \<open>The placeholder analysis\<close>

text \<open>
  Claim C9. For every essay text and every analysis type, \<open>analyzeEssay\<close> returns
  the same record but for the hook, which is the first 100 code units of the text followed
  by three dots. The analysis type is ignored, the type is \<open>personal_statement\<close>, and
  the four lists are fixed and non-empty.
\<close>

theorem analyzeEssay_placeholder:
  "\<exists>r. analyzeEssay (Some essayText) analysisType = Inr r \<and>
       analyzeEssay (Some essayText) analysisType' = Inr r \<and>
       analysis_kind r = js ''personal_statement'' \<and>
       analysis_structure r =
         \<lparr>hook = take 100 essayText @ js ''...'',
          exposition = js ''Analysis of exposition section...'',
          conflict = js ''Analysis of conflict section...'',
          learning = js ''Analysis of learning/growth section...'',
          conclusion = js ''Analysis of conclusion...''\<rparr> \<and>
       analysis_topics r = [js ''identity'', js ''growth'', js ''challenges''] \<and>
       strengths r = [js ''Strong hook'', js ''Clear narrative arc'', js ''Personal voice''] \<and>
       weaknesses r =
         [js ''Could use more specific examples'', js ''Conclusion could be stronger''] \<and>
       suggestions r =
         [js ''Add more concrete details'', js ''Strengthen the conclusion with future goals'']"
  by (simp add: analyzeEssay_def)

section \<open>Reads of the store that fail\<close>

lemma respond_fault:
  "fault d = Some f \<Longrightarrow>
   respond d r = (case f of Thrown e \<Rightarrow> Inl e | ErrorResult m \<Rightarrow> Inr \<lparr>data = None, error = Some m\<rparr>)"
  by (simp add: respond_def split: store_fault.splits)

lemma SupabaseService_searchSimilarEssays_fault:
  "fault d = Some f \<Longrightarrow>
   SupabaseService_searchSimilarEssays vdist d queryEmbedding essayType limit threshold = []"
  by (simp add: SupabaseService_searchSimilarEssays_def SupabaseService_searchSimilarEssays_try_def
        respond_fault Let_def split: store_fault.splits)

lemma searchSimilarEssays_fault:
  "fault (db env) = Some f \<Longrightarrow> fst (searchSimilarEssays env s query essayType limit) = []"
  by (simp add: searchSimilarEssays_def searchSimilarEssays_try_def
        SupabaseService_searchSimilarEssays_fault Let_def split: prod.splits sum.splits)

lemma getEssayExamples_fault:
  "fault (db env) = Some f \<Longrightarrow> getEssayExamples env topic essayType = []"
  by (simp add: getEssayExamples_def getEssaysByTopic_def respond_fault
        split: store_fault.splits)

text \<open>
  Claim C7. When the read of the store fails, by an error result or by an exception, the
  tool \<open>search_similar_essays\<close> hands an empty list to its caller and no error; so
  does \<open>get_essay_examples\<close>.
\<close>

theorem read_failure_gives_empty_list:
  assumes "fault (db env) = Some f"
  shows "fst (handleToolCall env w (js ''search_similar_essays'') inp) = Inr (Similar []) \<and>
         fst (handleToolCall env w (js ''get_essay_examples'') inp) = Inr (Examples [])"
proof -
  have n1: "js ''search_similar_essays'' \<noteq> js ''analyze_essay''" by (simp add: js_def)
  have n2: "js ''get_essay_examples'' \<noteq> js ''analyze_essay''" by (simp add: js_def)
  have n3: "js ''get_essay_examples'' \<noteq> js ''search_similar_essays''" by (simp add: js_def)
  have "fst (searchSimilarEssays env (embeddingService w) (arg_query inp) (arg_essay_type inp)
               (arg_limit inp)) = []"
    using assms by (rule searchSimilarEssays_fault)
  then have a: "fst (handleToolCall env w (js ''search_similar_essays'') inp) = Inr (Similar [])"
    by (auto simp: handleToolCall_def n1 split: prod.splits)
  have b: "fst (handleToolCall env w (js ''get_essay_examples'') inp) = Inr (Examples [])"
    using assms by (simp add: handleToolCall_def n2 n3 getEssayExamples_fault)
  from a b show ?thesis ..
qed

text \<open>
  An instance: the store answers every query with an error result.
\<close>

theorem read_failure_gives_empty_list_witness:
  "fault (db (sample_env (Inr []) (Inr []) (outage (ErrorResult (js ''connection refused''))))) =
     Some (ErrorResult (js ''connection refused'')) \<and>
   fst (handleToolCall (sample_env (Inr []) (Inr []) (outage (ErrorResult (js ''connection refused''))))
          new_world (js ''search_similar_essays'') (no_args\<lparr>arg_query := Some (js ''identity'')\<rparr>)) =
     Inr (Similar []) \<and>
   fst (handleToolCall (sample_env (Inr []) (Inr []) (outage (ErrorResult (js ''connection refused''))))
          new_world (js ''get_essay_examples'') (no_args\<lparr>arg_topic := Some (js ''identity'')\<rparr>)) =
     Inr (Examples [])"
proof -
  let ?env = "sample_env (Inr []) (Inr []) (outage (ErrorResult (js ''connection refused'')))"
  have h: "fault (db ?env) = Some (ErrorResult (js ''connection refused''))"
    by (simp add: sample_env_def outage_def)
  show ?thesis
    using h read_failure_gives_empty_list [OF h, of new_world "no_args\<lparr>arg_query := Some (js ''identity'')\<rparr>"]
      read_failure_gives_empty_list [OF h, of new_world "no_args\<lparr>arg_topic := Some (js ''identity'')\<rparr>"]
    by simp
qed

section \<open>One turn of the agent\<close>

lemma handleToolCall_unknown:
  "\<not> registered toolName \<Longrightarrow>
   handleToolCall env w toolName inp = (Inl (Error (js ''Unknown tool: '' @ toolName)), w)"
  by (simp add: handleToolCall_def registered_def tools_def)

lemma handleToolCall_calls: "calls (snd (handleToolCall env w toolName inp)) = calls w"
  by (simp add: handleToolCall_def split: prod.splits)

lemma handleToolCall_registered:
  "registered toolName \<Longrightarrow>
   executed (snd (handleToolCall env w toolName inp)) = executed w @ [toolName]"
  by (auto simp: handleToolCall_def registered_def tools_def split: prod.splits)

lemma handleToolCall_executed:
  "handleToolCall env w toolName inp = (Inr toolResult, w2) \<Longrightarrow>
   executed w2 = executed w @ [toolName]"
  by (auto simp: handleToolCall_def split: prod.splits if_splits)

text \<open>
  Claim C10. \<open>processMessage\<close> always gives an answer and a state, never an
  exception, and each internal failure gives the one apology: a failing first call of the
  language model, a tool name that is not registered, a tool that throws, a failing
  follow-up call.
\<close>

theorem processMessage_total:
  "(\<exists>answer w'. processMessage env w message sessionId = (answer, w')) \<and>
   (create env (first_request message) = Inl e \<longrightarrow>
      fst (processMessage env w message sessionId) = apology) \<and>
   (create env (first_request message) = Inr response \<and>
    find_tool_use response = Some (tool_use_id, toolName, inp) \<and> \<not> registered toolName \<longrightarrow>
      fst (processMessage env w message sessionId) = apology) \<and>
   (create env (first_request message) = Inr response \<and>
    find_tool_use response = Some (tool_use_id, toolName, inp) \<and>
    fst (handleToolCall env (w\<lparr>calls := calls w @ [first_request message]\<rparr>) toolName inp) = Inl e \<longrightarrow>
      fst (processMessage env w message sessionId) = apology) \<and>
   (create env (first_request message) = Inr response \<and>
    find_tool_use response = Some (tool_use_id, toolName, inp) \<and>
    fst (handleToolCall env (w\<lparr>calls := calls w @ [first_request message]\<rparr>) toolName inp) =
      Inr toolResult \<and>
    create env (follow_up_request message response tool_use_id (JSON_stringify env toolResult)) =
      Inl e \<longrightarrow>
      fst (processMessage env w message sessionId) = apology)"
proof (intro conjI impI)
  show "\<exists>answer w'. processMessage env w message sessionId = (answer, w')"
    by (cases "processMessage env w message sessionId") simp
next
  assume "create env (first_request message) = Inl e"
  then show "fst (processMessage env w message sessionId) = apology"
    by (simp add: processMessage_def processMessage_try_def Let_def)
next
  assume "create env (first_request message) = Inr response \<and>
    find_tool_use response = Some (tool_use_id, toolName, inp) \<and> \<not> registered toolName"
  then show "fst (processMessage env w message sessionId) = apology"
    by (simp add: processMessage_def processMessage_try_def Let_def handleToolCall_unknown)
next
  assume "create env (first_request message) = Inr response \<and>
    find_tool_use response = Some (tool_use_id, toolName, inp) \<and>
    fst (handleToolCall env (w\<lparr>calls := calls w @ [first_request message]\<rparr>) toolName inp) = Inl e"
  then show "fst (processMessage env w message sessionId) = apology"
    by (auto simp: processMessage_def processMessage_try_def Let_def split: prod.splits sum.splits)
next
  assume "create env (first_request message) = Inr response \<and>
    find_tool_use response = Some (tool_use_id, toolName, inp) \<and>
    fst (handleToolCall env (w\<lparr>calls := calls w @ [first_request message]\<rparr>) toolName inp) =
      Inr toolResult \<and>
    create env (follow_up_request message response tool_use_id (JSON_stringify env toolResult)) =
      Inl e"
  then show "fst (processMessage env w message sessionId) = apology"
    by (auto simp: processMessage_def processMessage_try_def Let_def split: prod.splits sum.splits)
qed

text \<open>
  Instances of the four failures: the language model is overloaded at the first call; it
  asks for a tool \<open>translate_essay\<close>; it asks for \<open>analyze_essay\<close> without an essay
  text; it is overloaded at the follow-up call.
\<close>

theorem processMessage_total_witness:
  "fst (processMessage (sample_env (Inl llm_overloaded) (Inr []) (sample_db []))
          new_world (js ''Hello'') (js ''default'')) = apology \<and>
   fst (processMessage (sample_env (Inr [tool_use ''translate_essay'' no_args]) (Inr []) (sample_db []))
          new_world (js ''Hello'') (js ''default'')) = apology \<and>
   fst (processMessage (sample_env (Inr [tool_use ''analyze_essay'' no_args]) (Inr []) (sample_db []))
          new_world (js ''Hello'') (js ''default'')) = apology \<and>
   fst (processMessage
          (sample_env (Inr [tool_use ''analyze_essay'' (essay_args ''My essay.'' ''quick_check'')])
             (Inl llm_overloaded) (sample_db []))
          new_world (js ''Hello'') (js ''default'')) = apology"
proof -
  let ?m = "js ''Hello''"
  let ?w1 = "new_world\<lparr>calls := calls new_world @ [first_request ?m]\<rparr>"
  let ?ea = "sample_env (Inl llm_overloaded) (Inr []) (sample_db [])"
  let ?eb = "sample_env (Inr [tool_use ''translate_essay'' no_args]) (Inr []) (sample_db [])"
  let ?ec = "sample_env (Inr [tool_use ''analyze_essay'' no_args]) (Inr []) (sample_db [])"
  let ?inp = "essay_args ''My essay.'' ''quick_check''"
  let ?ed = "sample_env (Inr [tool_use ''analyze_essay'' ?inp]) (Inl llm_overloaded) (sample_db [])"
  have a: "create ?ea (first_request ?m) = Inl llm_overloaded"
    by (simp add: sample_env_def scripted_def first_request_def)
  have b: "create ?eb (first_request ?m) = Inr [tool_use ''translate_essay'' no_args] \<and>
           find_tool_use [tool_use ''translate_essay'' no_args] =
             Some (js ''toolu_01'', js ''translate_essay'', no_args) \<and>
           \<not> registered (js ''translate_essay'')"
    by (simp add: sample_env_def scripted_def first_request_def tool_use_def registered_def
          tools_def js_def)
  have c: "create ?ec (first_request ?m) = Inr [tool_use ''analyze_essay'' no_args] \<and>
           find_tool_use [tool_use ''analyze_essay'' no_args] =
             Some (js ''toolu_01'', js ''analyze_essay'', no_args) \<and>
           fst (handleToolCall ?ec ?w1 (js ''analyze_essay'') no_args) =
             Inl (TypeError (js ''Cannot read properties of undefined (reading substring)''))"
    by (simp add: sample_env_def scripted_def first_request_def tool_use_def handleToolCall_def
          analyzeEssay_def no_args_def)
  obtain r where r: "analyzeEssay (arg_essay_text ?inp) (arg_analysis_type ?inp) = Inr r"
    by (simp add: analyzeEssay_def essay_args_def no_args_def)
  have d: "create ?ed (first_request ?m) = Inr [tool_use ''analyze_essay'' ?inp] \<and>
           find_tool_use [tool_use ''analyze_essay'' ?inp] =
             Some (js ''toolu_01'', js ''analyze_essay'', ?inp) \<and>
           fst (handleToolCall ?ed ?w1 (js ''analyze_essay'') ?inp) = Inr (Analysis r) \<and>
           create ?ed (follow_up_request ?m [tool_use ''analyze_essay'' ?inp] (js ''toolu_01'')
             (JSON_stringify ?ed (Analysis r))) = Inl llm_overloaded"
    using r by (simp add: sample_env_def scripted_def first_request_def follow_up_request_def
          tool_use_def handleToolCall_def)
  have ra: "fst (processMessage ?ea new_world ?m (js ''default'')) = apology"
    using a processMessage_total [of ?ea new_world ?m "js ''default''" llm_overloaded] by blast
  have rb: "fst (processMessage ?eb new_world ?m (js ''default'')) = apology"
    using b processMessage_total [of ?eb new_world ?m "js ''default''" _
        "[tool_use ''translate_essay'' no_args]" "js ''toolu_01''" "js ''translate_essay''" no_args]
    by blast
  have rc: "fst (processMessage ?ec new_world ?m (js ''default'')) = apology"
    using c processMessage_total [of ?ec new_world ?m "js ''default''"
        "TypeError (js ''Cannot read properties of undefined (reading substring)'')"
        "[tool_use ''analyze_essay'' no_args]" "js ''toolu_01''" "js ''analyze_essay''" no_args]
    by blast
  have rd: "fst (processMessage ?ed new_world ?m (js ''default'')) = apology"
    using d processMessage_total [of ?ed new_world ?m "js ''default''" llm_overloaded
        "[tool_use ''analyze_essay'' ?inp]" "js ''toolu_01''" "js ''analyze_essay''" ?inp
        "Analysis r"]
    by blast
  from ra rb rc rd show ?thesis by simp
qed

text \<open>
  Claim C2, amended. In a turn whose first response holds a tool invocation, when the
  tool call returns a result and the follow-up call returns a response, exactly one
  follow-up request is sent after the first request; it carries the user's message, the
  content of the first response and the tool result under the invocation's identifier.
  The answer is the first text block of the follow-up response, or the fixed fallback when
  it has none. Whatever the follow-up response holds, one tool was run and no third request
  is sent.
\<close>

theorem tool_turn_one_follow_up:
  assumes "create env (first_request message) = Inr response"
    and "find_tool_use response = Some (tool_use_id, toolName, inp)"
    and "handleToolCall env (w\<lparr>calls := calls w @ [first_request message]\<rparr>) toolName inp =
           (Inr toolResult, w2)"
    and "create env (follow_up_request message response tool_use_id (JSON_stringify env toolResult)) =
           Inr followUpResponse"
  shows "fst (processMessage env w message sessionId) =
           (case find_text followUpResponse of Some t \<Rightarrow> t | None \<Rightarrow> tools_fallback) \<and>
         (\<exists>followUp.
            calls (snd (processMessage env w message sessionId)) =
              calls w @ [first_request message, followUp] \<and>
            messages followUp =
              [(User, Plain message), (Assistant, Blocks response),
               (User, Blocks [ToolResultBlock tool_use_id (JSON_stringify env toolResult)])]) \<and>
         executed (snd (processMessage env w message sessionId)) = executed w @ [toolName]"
proof -
  let ?f = "follow_up_request message response tool_use_id (JSON_stringify env toolResult)"
  have r: "processMessage env w message sessionId =
             (case find_text followUpResponse of Some t \<Rightarrow> t | None \<Rightarrow> tools_fallback,
              w2\<lparr>calls := calls w2 @ [?f]\<rparr>)"
    using assms by (simp add: processMessage_def processMessage_try_def Let_def)
  have c: "calls w2 = calls w @ [first_request message]"
    using handleToolCall_calls [of env "w\<lparr>calls := calls w @ [first_request message]\<rparr>" toolName inp]
      assms(3) by simp
  have e: "executed w2 = executed w @ [toolName]"
    using handleToolCall_executed [OF assms(3)] by simp
  have m: "messages ?f =
             [(User, Plain message), (Assistant, Blocks response),
              (User, Blocks [ToolResultBlock tool_use_id (JSON_stringify env toolResult)])]"
    by (simp add: follow_up_request_def)
  from r c e m show ?thesis by simp
qed

text \<open>
  An instance: the follow-up response asks for a second tool and also holds a text. The
  text is the answer, and only \<open>analyze_essay\<close> was run.
\<close>

theorem tool_turn_one_follow_up_witness:
  "fst (processMessage
          (sample_env (Inr [tool_use ''analyze_essay'' (essay_args ''My essay.'' ''quick_check'')])
             (Inr [tool_use ''get_essay_examples'' no_args, TextBlock (js ''Nice hook.'')])
             (sample_db []))
          new_world (js ''Check my essay'') (js ''default'')) = js ''Nice hook.'' \<and>
   length (calls (snd (processMessage
          (sample_env (Inr [tool_use ''analyze_essay'' (essay_args ''My essay.'' ''quick_check'')])
             (Inr [tool_use ''get_essay_examples'' no_args, TextBlock (js ''Nice hook.'')])
             (sample_db []))
          new_world (js ''Check my essay'') (js ''default'')))) = 2 \<and>
   executed (snd (processMessage
          (sample_env (Inr [tool_use ''analyze_essay'' (essay_args ''My essay.'' ''quick_check'')])
             (Inr [tool_use ''get_essay_examples'' no_args, TextBlock (js ''Nice hook.'')])
             (sample_db []))
          new_world (js ''Check my essay'') (js ''default''))) = [js ''analyze_essay'']"
proof -
  let ?inp = "essay_args ''My essay.'' ''quick_check''"
  let ?r1 = "[tool_use ''analyze_essay'' ?inp]"
  let ?r2 = "[tool_use ''get_essay_examples'' no_args, TextBlock (js ''Nice hook.'')]"
  let ?env = "sample_env (Inr ?r1) (Inr ?r2) (sample_db [])"
  let ?m = "js ''Check my essay''"
  let ?w1 = "new_world\<lparr>calls := calls new_world @ [first_request ?m]\<rparr>"
  obtain a where a: "analyzeEssay (arg_essay_text ?inp) (arg_analysis_type ?inp) = Inr a"
    by (simp add: analyzeEssay_def essay_args_def no_args_def)
  have h1: "create ?env (first_request ?m) = Inr ?r1"
    by (simp add: sample_env_def scripted_def first_request_def)
  have h2: "find_tool_use ?r1 = Some (js ''toolu_01'', js ''analyze_essay'', ?inp)"
    by (simp add: tool_use_def)
  have h3: "handleToolCall ?env ?w1 (js ''analyze_essay'') ?inp =
              (Inr (Analysis a), ?w1\<lparr>executed := executed ?w1 @ [js ''analyze_essay'']\<rparr>)"
    using a by (simp add: handleToolCall_def)
  have h4: "create ?env (follow_up_request ?m ?r1 (js ''toolu_01'')
              (JSON_stringify ?env (Analysis a))) = Inr ?r2"
    by (simp add: sample_env_def scripted_def follow_up_request_def)
  have f: "find_text ?r2 = Some (js ''Nice hook.'')"
    by (simp add: tool_use_def)
  show ?thesis
    using tool_turn_one_follow_up [OF h1 h2 h3 h4, of "js ''default''"] f
    by (auto simp: new_world_def)
qed

text \<open>
  The claim as it was stated, for every turn whose first response holds a tool
  invocation, fails when the tool is unknown: the only request sent is the first one, and
  the answer is the apology, not the text of a follow-up response.
\<close>

theorem tool_turn_one_follow_up_counterexample:
  "create (sample_env (Inr [tool_use ''translate_essay'' no_args]) (Inr [TextBlock (js ''Done.'')])
             (sample_db [])) (first_request (js ''Translate my essay'')) =
     Inr [tool_use ''translate_essay'' no_args] \<and>
   find_tool_use [tool_use ''translate_essay'' no_args] =
     Some (js ''toolu_01'', js ''translate_essay'', no_args) \<and>
   processMessage
     (sample_env (Inr [tool_use ''translate_essay'' no_args]) (Inr [TextBlock (js ''Done.'')])
        (sample_db []))
     new_world (js ''Translate my essay'') (js ''default'') =
     (apology, new_world\<lparr>calls := [first_request (js ''Translate my essay'')]\<rparr>) \<and>
   apology \<noteq> js ''Done.'' \<and> apology \<noteq> tools_fallback"
  by (simp add: processMessage_def processMessage_try_def handleToolCall_def Let_def sample_env_def
        scripted_def first_request_def new_world_def tool_use_def apology_def tools_fallback_def js_def)

text \<open>
  Claim C4, amended. \<open>handleToolCall\<close> throws \<open>Unknown tool\<close> exactly when the name
  is not one of the three registered names. Then the turn ends with the apology after the
  first request, and no tool is run. With a registered name the tool is run; the
  arguments are not checked before.
\<close>

theorem unknown_tool_aborts:
  "(\<not> registered toolName \<longrightarrow>
      spec_validate toolName inp = UnknownTool \<and>
      handleToolCall env w toolName inp = (Inl (Error (js ''Unknown tool: '' @ toolName)), w) \<and>
      (create env (first_request message) = Inr response \<and>
       find_tool_use response = Some (tool_use_id, toolName, inp) \<longrightarrow>
         processMessage env w message sessionId =
           (apology, w\<lparr>calls := calls w @ [first_request message]\<rparr>))) \<and>
   (registered toolName \<longrightarrow>
      spec_validate toolName inp \<noteq> UnknownTool \<and>
      executed (snd (handleToolCall env w toolName inp)) = executed w @ [toolName])"
proof (intro conjI impI)
  assume n: "\<not> registered toolName"
  then have "find (\<lambda>t. tool_name t = toolName) tools = None"
    by (auto simp: registered_def find_None_iff)
  then show "spec_validate toolName inp = UnknownTool"
    by (simp add: spec_validate_def)
  show "handleToolCall env w toolName inp = (Inl (Error (js ''Unknown tool: '' @ toolName)), w)"
    using n by (rule handleToolCall_unknown)
  assume "create env (first_request message) = Inr response \<and>
       find_tool_use response = Some (tool_use_id, toolName, inp)"
  then show "processMessage env w message sessionId =
           (apology, w\<lparr>calls := calls w @ [first_request message]\<rparr>)"
    using n by (simp add: processMessage_def processMessage_try_def Let_def handleToolCall_unknown)
next
  assume r: "registered toolName"
  then have "find (\<lambda>t. tool_name t = toolName) tools \<noteq> None"
    by (auto simp: registered_def find_None_iff)
  then show "spec_validate toolName inp \<noteq> UnknownTool"
    by (auto simp: spec_validate_def split: if_splits)
  show "executed (snd (handleToolCall env w toolName inp)) = executed w @ [toolName]"
    using r by (rule handleToolCall_registered)
qed

text \<open>
  An instance of each case: \<open>translate_essay\<close> is not registered,
  \<open>get_essay_examples\<close> is.
\<close>

theorem unknown_tool_aborts_witness:
  "\<not> registered (js ''translate_essay'') \<and>
   spec_validate (js ''translate_essay'') no_args = UnknownTool \<and>
   processMessage
     (sample_env (Inr [tool_use ''translate_essay'' no_args]) (Inr [TextBlock (js ''Done.'')])
        (sample_db []))
     new_world (js ''Translate my essay'') (js ''default'') =
     (apology, new_world\<lparr>calls := calls new_world @ [first_request (js ''Translate my essay'')]\<rparr>) \<and>
   registered (js ''get_essay_examples'') \<and>
   executed (snd (handleToolCall
      (sample_env (Inr []) (Inr []) (sample_db [])) new_world (js ''get_essay_examples'') no_args)) =
     executed new_world @ [js ''get_essay_examples'']"
proof -
  let ?env = "sample_env (Inr [tool_use ''translate_essay'' no_args]) (Inr [TextBlock (js ''Done.'')])
        (sample_db [])"
  have n: "\<not> registered (js ''translate_essay'')"
    by (simp add: registered_def tools_def js_def)
  have r: "registered (js ''get_essay_examples'')"
    by (simp add: registered_def tools_def)
  have h: "create ?env (first_request (js ''Translate my essay'')) =
             Inr [tool_use ''translate_essay'' no_args] \<and>
           find_tool_use [tool_use ''translate_essay'' no_args] =
             Some (js ''toolu_01'', js ''translate_essay'', no_args)"
    by (simp add: sample_env_def scripted_def first_request_def tool_use_def)
  show ?thesis
    using n r h
      unknown_tool_aborts [of "js ''translate_essay''" no_args ?env new_world
        "js ''Translate my essay''" "[tool_use ''translate_essay'' no_args]" "js ''toolu_01''"
        "js ''default''"]
      unknown_tool_aborts [of "js ''get_essay_examples''" no_args
        "sample_env (Inr []) (Inr []) (sample_db [])" new_world]
    by simp
qed

text \<open>
  The claim as it was stated fails for invalid arguments. An \<open>analysis_type\<close> outside
  its \<open>enum\<close>, and a \<open>search_similar_essays\<close> without its required \<open>query\<close>, are
  both invalid by the specification's validation; in both turns the tool is run and the
  answer is the text of the follow-up response.
\<close>

theorem unknown_tool_aborts_counterexample:
  "spec_validate (js ''analyze_essay'') (essay_args ''My essay.'' ''proofread'') = InvalidArguments \<and>
   spec_validate (js ''search_similar_essays'') no_args = InvalidArguments \<and>
   fst (processMessage
          (sample_env (Inr [tool_use ''analyze_essay'' (essay_args ''My essay.'' ''proofread'')])
             (Inr [TextBlock (js ''Nice hook.'')]) (sample_db []))
          new_world (js ''Check my essay'') (js ''default'')) = js ''Nice hook.'' \<and>
   executed (snd (processMessage
          (sample_env (Inr [tool_use ''analyze_essay'' (essay_args ''My essay.'' ''proofread'')])
             (Inr [TextBlock (js ''Nice hook.'')]) (sample_db []))
          new_world (js ''Check my essay'') (js ''default''))) = [js ''analyze_essay''] \<and>
   fst (processMessage
          (sample_env (Inr [tool_use ''search_similar_essays'' no_args])
             (Inr [TextBlock (js ''No matches.'')]) (sample_db []))
          new_world (js ''Find essays'') (js ''default'')) = js ''No matches.'' \<and>
   executed (snd (processMessage
          (sample_env (Inr [tool_use ''search_similar_essays'' no_args])
             (Inr [TextBlock (js ''No matches.'')]) (sample_db []))
          new_world (js ''Find essays'') (js ''default''))) = [js ''search_similar_essays'']"
proof (intro conjI)
  show "spec_validate (js ''analyze_essay'') (essay_args ''My essay.'' ''proofread'') = InvalidArguments"
    by (simp add: spec_validate_def tools_def arg_present_def enum_ok_def arg_string_def
          essay_args_def no_args_def js_def)
  show "spec_validate (js ''search_similar_essays'') no_args = InvalidArguments"
    by (simp add: spec_validate_def tools_def arg_present_def enum_ok_def arg_string_def
          no_args_def js_def)
  show "fst (processMessage
          (sample_env (Inr [tool_use ''analyze_essay'' (essay_args ''My essay.'' ''proofread'')])
             (Inr [TextBlock (js ''Nice hook.'')]) (sample_db []))
          new_world (js ''Check my essay'') (js ''default'')) = js ''Nice hook.''"
    by (simp add: turn_defs sample_defs)
  show "executed (snd (processMessage
          (sample_env (Inr [tool_use ''analyze_essay'' (essay_args ''My essay.'' ''proofread'')])
             (Inr [TextBlock (js ''Nice hook.'')]) (sample_db []))
          new_world (js ''Check my essay'') (js ''default''))) = [js ''analyze_essay'']"
    by (simp add: turn_defs sample_defs)
  have s: "searchSimilarEssays
             (sample_env (Inr [tool_use ''search_similar_essays'' no_args])
                (Inr [TextBlock (js ''No matches.'')]) (sample_db []))
             new_EmbeddingService None None None =
           ([], new_EmbeddingService\<lparr>model := Some sample_pipeline\<rparr>)"
    by (simp add: searchSimilarEssays_def searchSimilarEssays_try_def generateEmbedding_def
          initializeModel_def initializeModel_enter_def initializeModel_resume_def
          generateEmbedding_checked_def sample_env_def new_EmbeddingService_def Let_def)
  show "fst (processMessage
          (sample_env (Inr [tool_use ''search_similar_essays'' no_args])
             (Inr [TextBlock (js ''No matches.'')]) (sample_db []))
          new_world (js ''Find essays'') (js ''default'')) = js ''No matches.''"
    using s by (simp add: turn_defs sample_defs)
  show "executed (snd (processMessage
          (sample_env (Inr [tool_use ''search_similar_essays'' no_args])
             (Inr [TextBlock (js ''No matches.'')]) (sample_db []))
          new_world (js ''Find essays'') (js ''default''))) = [js ''search_similar_essays'']"
    using s by (simp add: turn_defs sample_defs)
qed

section \<open>Ranking in the store\<close>

lemma dot_Cons: "dot (x # xs) (y # ys) = x * y + dot xs ys"
  by (simp add: dot_def)

lemma dot_zeros: "dot (replicate n 0) v = 0"
proof (induction n arbitrary: v)
  case 0
  show ?case by (simp add: dot_def)
next
  case (Suc n)
  show ?case
  proof (cases v)
    case Nil
    then show ?thesis by (simp add: dot_def)
  next
    case (Cons y ys)
    then show ?thesis using Suc [of ys] by (simp add: dot_Cons)
  qed
qed

lemma dot_vec2: "dot (vec2 a b) (vec2 c d) = a * c + b * d"
  by (simp add: vec2_def dot_Cons dot_zeros)

lemma cosine_distance_vec2:
  "cosine_distance (vec2 a b) (vec2 c d) =
     (if sqrt (a * a + b * b) = 0 \<or> sqrt (c * c + d * d) = 0 then NaN
      else Num (1 - (a * c + b * d) / (sqrt (a * a + b * b) * sqrt (c * c + d * d))))"
  by (simp add: cosine_distance_def magnitude_def dot_vec2)

lemma pg_gt_Num: "pg_gt s (Num t) \<longleftrightarrow> (case s of Num x \<Rightarrow> x > t | NaN \<Rightarrow> True)"
  by (cases s) simp_all

lemma order_key_sim_before:
  "order_key a \<le> order_key b \<Longrightarrow> sim_before (pg_one_minus a) (pg_one_minus b)"
  by (cases a; cases b) simp_all

lemma match_essays_rows:
  assumes "match_essays vdist reach table q match_threshold match_count = Inr rows"
    and "(e, s) \<in> set rows"
  shows "e \<in> set table \<and> embedding e \<noteq> None \<and> s = similarity vdist q e \<and>
         pg_gt s (Num (case match_threshold of None \<Rightarrow> 78 / 100 | Some t \<Rightarrow> t))"
  using assms by (auto simp: match_essays_def Let_def split: if_splits dest!: in_set_takeD)

lemma match_essays_sorted:
  assumes "match_essays vdist reach table q match_threshold match_count = Inr rows"
  shows "sorted_wrt (\<lambda>a b. sim_before (snd a) (snd b)) rows"
proof -
  let ?key = "\<lambda>e. order_key (vdist (the (embedding e)) q)"
  let ?P = "\<lambda>e. reach e \<and> embedding e \<noteq> None \<and>
     pg_gt (similarity vdist q e)
       (Num (case match_threshold of None \<Rightarrow> 78 / 100 | Some t \<Rightarrow> t))"
  have "sorted (map ?key (sort_key ?key (filter ?P table)))"
    by (rule sorted_sort_key)
  then have "sorted_wrt (\<lambda>a b. ?key a \<le> ?key b) (sort_key ?key (filter ?P table))"
    by (simp only: sorted_map)
  then have "sorted_wrt (\<lambda>a b. sim_before (similarity vdist q a) (similarity vdist q b))
               (sort_key ?key (filter ?P table))"
    by (rule sorted_wrt_mono_rel [rotated]) (simp add: similarity_def order_key_sim_before)
  then have "sorted_wrt (\<lambda>a b. sim_before (snd a) (snd b))
               (map (\<lambda>e. (e, similarity vdist q e)) (sort_key ?key (filter ?P table)))"
    by (simp add: sorted_wrt_map)
  then have "sorted_wrt (\<lambda>a b. sim_before (snd a) (snd b))
               (take n (map (\<lambda>e. (e, similarity vdist q e)) (sort_key ?key (filter ?P table))))" for n
    by (rule sorted_wrt_take)
  then show ?thesis
    using assms by (auto simp: match_essays_def Let_def split: if_splits)
qed

lemma match_essays_length:
  assumes "match_essays vdist reach table q match_threshold match_count = Inr rows"
  shows "length rows \<le> nat (case match_count of None \<Rightarrow> 5 | Some n \<Rightarrow> n)"
  using assms by (auto simp: match_essays_def Let_def split: if_splits)

lemma eq_type_subset: "set (eq_type essayType rows) \<subseteq> set rows"
  by (auto simp: eq_type_def split: option.splits)

lemma eq_type_sorted: "sorted_wrt R rows \<Longrightarrow> sorted_wrt R (eq_type essayType rows)"
  by (auto simp: eq_type_def sorted_wrt_filter split: option.splits)

lemma eq_type_length: "length (eq_type essayType rows) \<le> length rows"
  by (auto simp: eq_type_def split: option.splits)

lemma SupabaseService_searchSimilarEssays_cases:
  "SupabaseService_searchSimilarEssays vdist d q essayType limit threshold = [] \<or>
   (\<exists>rows. match_essays vdist (reached d q) (essays d) q
              (Some (case threshold of None \<Rightarrow> 7 / 10 | Some t \<Rightarrow> t))
              (Some (case limit of None \<Rightarrow> 5 | Some n \<Rightarrow> n)) = Inr rows \<and>
           SupabaseService_searchSimilarEssays vdist d q essayType limit threshold =
             eq_type essayType rows)"
  by (cases "match_essays vdist (reached d q) (essays d) q
              (Some (case threshold of None \<Rightarrow> 7 / 10 | Some t \<Rightarrow> t))
              (Some (case limit of None \<Rightarrow> 5 | Some n \<Rightarrow> n))")
     (auto simp: SupabaseService_searchSimilarEssays_def SupabaseService_searchSimilarEssays_try_def
        respond_def Let_def split: option.splits store_fault.splits)

lemma SupabaseService_searchSimilarEssays_defaults:
  "SupabaseService_searchSimilarEssays vdist d q essayType None None =
   SupabaseService_searchSimilarEssays vdist d q essayType (Some 5) (Some (7 / 10))"
  by (simp add: SupabaseService_searchSimilarEssays_def SupabaseService_searchSimilarEssays_try_def)

text \<open>
  Claim C1, amended. \<open>SupabaseService.searchSimilarEssays\<close> uses the threshold 0.7 when
  none is supplied, and the limit 5: leaving both out gives the result of passing 0.7 and
  5. Every row it returns is a row of the table with an embedding and carries its
  similarity to the query. A similarity that is a number is strictly above the threshold;
  a similarity that is NaN (an embedding or a query of zero magnitude) also passes the
  database's comparison. The rows are in ascending order of distance: the numeric
  similarities descend, and the rows with NaN come last. There are at most \<open>limit\<close>
  rows. The default 0.78 of \<open>match_essays\<close> is never used by this path, which always
  passes a threshold.
\<close>

theorem searchSimilarEssays_ranked:
  "(\<forall>(e, s) \<in> set (SupabaseService_searchSimilarEssays vdist d q essayType limit threshold).
      e \<in> set (essays d) \<and> embedding e \<noteq> None \<and> s = similarity vdist q e \<and>
      (case s of
         Num x \<Rightarrow> x > (case threshold of None \<Rightarrow> 7 / 10 | Some t \<Rightarrow> t)
       | NaN \<Rightarrow> True)) \<and>
   sorted_wrt sim_before
     (map snd (SupabaseService_searchSimilarEssays vdist d q essayType limit threshold)) \<and>
   length (SupabaseService_searchSimilarEssays vdist d q essayType limit threshold) \<le>
     nat (case limit of None \<Rightarrow> 5 | Some n \<Rightarrow> n) \<and>
   SupabaseService_searchSimilarEssays vdist d q essayType None None =
     SupabaseService_searchSimilarEssays vdist d q essayType (Some 5) (Some (7 / 10))"
proof -
  let ?res = "SupabaseService_searchSimilarEssays vdist d q essayType limit threshold"
  let ?thr = "case threshold of None \<Rightarrow> 7 / 10 | Some t \<Rightarrow> t"
  let ?lim = "case limit of None \<Rightarrow> 5 | Some n \<Rightarrow> n"
  have dflt: "SupabaseService_searchSimilarEssays vdist d q essayType None None =
     SupabaseService_searchSimilarEssays vdist d q essayType (Some 5) (Some (7 / 10))"
    by (rule SupabaseService_searchSimilarEssays_defaults)
  consider "?res = []"
    | rows where "match_essays vdist (reached d q) (essays d) q (Some ?thr) (Some ?lim) = Inr rows"
        and "?res = eq_type essayType rows"
    using SupabaseService_searchSimilarEssays_cases [of vdist d q essayType limit threshold] by blast
  then show ?thesis
  proof cases
    case 1
    then show ?thesis using dflt by simp
  next
    case (2 rows)
    have a: "\<forall>(e, s) \<in> set ?res. e \<in> set (essays d) \<and> embedding e \<noteq> None \<and>
               s = similarity vdist q e \<and> (case s of Num x \<Rightarrow> x > ?thr | NaN \<Rightarrow> True)"
    proof (clarify)
      fix e s assume "(e, s) \<in> set ?res"
      then have "(e, s) \<in> set rows" using 2(2) eq_type_subset by auto
      from match_essays_rows [OF 2(1) this]
      show "e \<in> set (essays d) \<and> embedding e \<noteq> None \<and> s = similarity vdist q e \<and>
            (case s of Num x \<Rightarrow> x > ?thr | NaN \<Rightarrow> True)"
        by (auto simp: pg_gt_Num)
    qed
    have "sorted_wrt (\<lambda>a b. sim_before (snd a) (snd b)) ?res"
      using match_essays_sorted [OF 2(1)] 2(2) by (simp add: eq_type_sorted)
    then have b: "sorted_wrt sim_before (map snd ?res)"
      by (simp add: sorted_wrt_map)
    have "length ?res \<le> length rows" using 2(2) by (simp add: eq_type_length)
    also have "\<dots> \<le> nat ?lim" using match_essays_length [OF 2(1)] by simp
    finally have c: "length ?res \<le> nat ?lim" .
    from a b c dflt show ?thesis by blast
  qed
qed

text \<open>
  An instance: six essays, one without an embedding and one with the zero vector, limit 4
  and no threshold. The essay of similarity 0.6 is left out; the essay with the zero
  vector is returned, last.
\<close>

theorem searchSimilarEssays_ranked_witness:
  "SupabaseService_searchSimilarEssays cosine_distance
     (sample_db [essay_D, essay_E, essay_Z, essay_C, essay_B, essay_A]) (vec2 1 0) None (Some 4) None =
     [(essay_A, Num 1), (essay_B, Num (4 / 5)), (essay_C, Num (21 / 29)), (essay_Z, NaN)] \<and>
   (1 :: real) > 7 / 10 \<and> (4 / 5 :: real) > 7 / 10 \<and> (21 / 29 :: real) > 7 / 10 \<and>
   sorted_wrt sim_before [Num 1, Num (4 / 5), Num (21 / 29), NaN] \<and>
   length [(essay_A, Num 1), (essay_B, Num (4 / 5)), (essay_C, Num (21 / 29)), (essay_Z, NaN)] \<le>
     nat 4"
proof -
  have r: "SupabaseService_searchSimilarEssays cosine_distance
     (sample_db [essay_D, essay_E, essay_Z, essay_C, essay_B, essay_A]) (vec2 1 0) None (Some 4) None =
     [(essay_A, Num 1), (essay_B, Num (4 / 5)), (essay_C, Num (21 / 29)), (essay_Z, NaN)]"
    by (simp add: store_defs cosine_distance_vec2)
  have g: "(1 :: real) > 7 / 10 \<and> (4 / 5 :: real) > 7 / 10 \<and> (21 / 29 :: real) > 7 / 10 \<and>
     sorted_wrt sim_before [Num 1, Num (4 / 5), Num (21 / 29), NaN] \<and>
     length [(essay_A, Num 1), (essay_B, Num (4 / 5)), (essay_C, Num (21 / 29)), (essay_Z, NaN)] \<le>
       nat 4"
    by simp
  show ?thesis
    using searchSimilarEssays_ranked [of cosine_distance
        "sample_db [essay_D, essay_E, essay_Z, essay_C, essay_B, essay_A]" "vec2 1 0" None
        "Some 4" None] r g
    by blast
qed

text \<open>
  The claim as it was stated, with 0.78 as the default, fails: with no threshold
  supplied, an essay of similarity 21/29 (about 0.724) is returned.
\<close>

theorem searchSimilarEssays_ranked_counterexample:
  "SupabaseService_searchSimilarEssays cosine_distance (sample_db [essay_C]) (vec2 1 0)
     None None None = [(essay_C, Num (21 / 29))] \<and> \<not> (21 / 29 > (78 / 100 :: real))"
  by (simp add: store_defs cosine_distance_vec2)

text \<open>
  Claim C6. The claim says that the type filter comes before ranking and limiting, so
  that up to \<open>limit\<close> essays of the type are returned when that many are above the
  threshold. The code filters the rows that \<open>match_essays\<close> returns, after its
  \<open>LIMIT\<close>. With the essays A (supplemental, similarity 1) and B (personal
  statement, similarity 0.8), the type \<open>personal_statement\<close> and limit 1, the
  function keeps A alone and the filter then drops it: the result is empty, although B has
  the type and is above the threshold. Without A in the table, B is returned.
\<close>

theorem type_filter_after_limit:
  "SupabaseService_searchSimilarEssays cosine_distance (sample_db [essay_A, essay_B]) (vec2 1 0)
     (Some (js ''personal_statement'')) (Some 1) None = [] \<and>
   etype essay_B = js ''personal_statement'' \<and>
   embedding essay_B \<noteq> None \<and>
   similarity cosine_distance (vec2 1 0) essay_B = Num (4 / 5) \<and> (4 / 5 :: real) > 7 / 10 \<and>
   SupabaseService_searchSimilarEssays cosine_distance (sample_db [essay_B]) (vec2 1 0)
     (Some (js ''personal_statement'')) (Some 1) None = [(essay_B, Num (4 / 5))]"
  by (simp add: store_defs cosine_distance_vec2 js_def)

section \<open>Text normalisation\<close>

lemma upper_plus:
  assumes "(0x41::16 word) \<le> c" "c \<le> 0x5A"
  shows "unat (c + 0x20) = unat c + 32"
proof -
  from assms have "unat c \<le> 90" by (simp add: word_le_nat_alt)
  then have "unat c + unat (0x20::16 word) < 2 ^ LENGTH(16)" by simp
  then have "unat (c + 0x20) = unat c + unat (0x20::16 word)" by (simp only: unat_add_lem)
  then show ?thesis by simp
qed

lemma lower_unit_unat:
  "unat (lower_unit c) = (if 65 \<le> unat c \<and> unat c \<le> 90 then unat c + 32 else unat c)"
  using upper_plus [of c] by (auto simp: lower_unit_def word_le_nat_alt)

lemma is_space_unat:
  "is_space c \<longleftrightarrow> unat c \<in> {9, 10, 11, 12, 13, 32, 160, 5760, 8232, 8233, 8239, 8287, 12288, 65279} \<or>
     (8192 \<le> unat c \<and> unat c \<le> 8202)"
  by (auto simp: is_space_def word_le_nat_alt word_unat_eq_iff)

lemma is_space_lower [simp]: "is_space (lower_unit c) = is_space c"
  by (auto simp: is_space_unat lower_unit_unat)

lemma lower_unit_space [simp]: "lower_unit c = 0x20 \<longleftrightarrow> c = 0x20"
  by (auto simp: word_unat_eq_iff lower_unit_unat)

lemma lower_unit_idem [simp]: "lower_unit (lower_unit c) = lower_unit c"
  by (auto simp: word_unat_eq_iff lower_unit_unat)

lemma kept_lower: "kept c \<Longrightarrow> kept (lower_unit c)"
  unfolding kept_def is_space_lower
  by (auto simp: is_word_def is_basic_punct_def word_le_nat_alt word_unat_eq_iff lower_unit_unat)

lemma is_space_32 [simp]: "is_space 0x20"
  by (simp add: is_space_def)

lemma single_spaced_nonspace [simp]:
  "\<not> is_space c \<Longrightarrow> single_spaced (c # xs) \<longleftrightarrow> single_spaced xs"
  by (cases xs) auto

lemma single_spaced_space [simp]:
  "is_space c \<Longrightarrow>
   single_spaced (c # xs) \<longleftrightarrow> c = 0x20 \<and> xs \<noteq> [] \<and> \<not> is_space (hd xs) \<and> single_spaced xs"
  by (cases xs) auto

lemma replace_ws_runs_Nil_iff [simp]: "replace_ws_runs t = [] \<longleftrightarrow> t = []"
  by (cases t) auto

lemma hd_replace_ws_runs:
  "t \<noteq> [] \<Longrightarrow> \<not> is_space (hd t) \<Longrightarrow> hd (replace_ws_runs t) = hd t"
  by (cases t) auto

lemma dropWhile_last_nonspace:
  assumes "cs \<noteq> []" "\<not> is_space (last cs)"
  shows "dropWhile is_space cs \<noteq> [] \<and> last (dropWhile is_space cs) = last cs \<and>
         \<not> is_space (hd (dropWhile is_space cs))"
proof -
  have ne: "dropWhile is_space cs \<noteq> []"
    using assms by (metis dropWhile_eq_Nil_conv last_in_set)
  moreover have "last (dropWhile is_space cs) = last cs"
    using ne by (metis last_appendR takeWhile_dropWhile_id)
  moreover have "\<not> is_space (hd (dropWhile is_space cs))"
    using ne by (rule hd_dropWhile)
  ultimately show ?thesis by blast
qed

lemma single_spaced_replace_ws_runs:
  "t = [] \<or> \<not> is_space (last t) \<Longrightarrow> single_spaced (replace_ws_runs t)"
proof (induction t rule: replace_ws_runs.induct)
  case 1
  show ?case by simp
next
  case (2 c cs)
  show ?case
  proof (cases "is_space c")
    case True
    with "2.prems" have cs: "cs \<noteq> []" "\<not> is_space (last cs)" by (auto split: if_splits)
    let ?r = "dropWhile is_space cs"
    from dropWhile_last_nonspace [OF cs]
    have r: "?r \<noteq> []" "last ?r = last cs" "\<not> is_space (hd ?r)" by simp_all
    have "single_spaced (replace_ws_runs ?r)"
      using True r cs by (intro "2.IH"(1)) simp_all
    moreover have "hd (replace_ws_runs ?r) = hd ?r"
      using r by (simp add: hd_replace_ws_runs)
    ultimately show ?thesis using True r by simp
  next
    case False
    have "single_spaced (replace_ws_runs cs)"
      using False "2.prems" by (intro "2.IH"(2)) (auto split: if_splits)
    then show ?thesis using False by simp
  qed
qed

lemma single_spaced_fixpoint: "single_spaced u \<Longrightarrow> replace_ws_runs u = u"
proof (induction u rule: replace_ws_runs.induct)
  case 1
  show ?case by simp
next
  case (2 c cs)
  show ?case
  proof (cases "is_space c")
    case True
    with "2.prems" have p: "c = 0x20" "cs \<noteq> []" "\<not> is_space (hd cs)" "single_spaced cs" by simp_all
    then have d: "dropWhile is_space cs = cs" by (cases cs) simp_all
    with "2.IH"(1) True p have "replace_ws_runs cs = cs" by simp
    then show ?thesis using True p d by simp
  next
    case False
    with "2.prems" have "single_spaced cs" by simp
    with "2.IH"(2) False have "replace_ws_runs cs = cs" by simp
    then show ?thesis using False by simp
  qed
qed

lemma single_spaced_last: "single_spaced u \<Longrightarrow> u \<noteq> [] \<Longrightarrow> \<not> is_space (last u)"
  by (induction u rule: single_spaced.induct) (auto split: if_splits)

lemma trim_fixpoint:
  assumes "single_spaced u" "u = [] \<or> \<not> is_space (hd u)"
  shows "trim u = u"
proof (cases u)
  case Nil
  then show ?thesis by (simp add: trim_def)
next
  case (Cons c cs)
  then have ne: "u \<noteq> []" by simp
  with assms have h: "\<not> is_space (hd u)" and l: "\<not> is_space (last u)"
    using single_spaced_last [of u] by auto
  from h ne have 1: "dropWhile is_space u = u" by (cases u) simp_all
  from l have "\<not> is_space (hd (rev u))" by (simp add: hd_rev)
  moreover from ne have "rev u \<noteq> []" by simp
  ultimately have 2: "dropWhile is_space (rev u) = rev u" by (cases "rev u") simp_all
  show ?thesis by (simp add: trim_def 1 2)
qed

lemma trim_edges:
  "trim s = [] \<or> (\<not> is_space (hd (trim s)) \<and> \<not> is_space (last (trim s)))"
proof (cases "trim s = []")
  case True
  then show ?thesis by simp
next
  case False
  let ?a = "dropWhile is_space s"
  let ?b = "dropWhile is_space (rev ?a)"
  from False have b: "?b \<noteq> []" by (simp add: trim_def)
  have a: "?a \<noteq> []"
  proof
    assume "?a = []"
    then have "?b = []" by (simp only: rev.simps dropWhile.simps)
    with b show False by blast
  qed
  have "\<not> is_space (hd ?b)" using b by (rule hd_dropWhile)
  then have l: "\<not> is_space (last (trim s))" using b by (simp add: trim_def last_rev)
  have "\<not> is_space (hd ?a)" using a by (rule hd_dropWhile)
  then have "\<not> is_space (last (rev ?a))" using a by (simp add: last_rev)
  moreover have "last ?b = last (rev ?a)"
    using b by (metis last_appendR takeWhile_dropWhile_id)
  ultimately have "\<not> is_space (hd (trim s))" using b by (simp add: trim_def hd_rev)
  with l show ?thesis by simp
qed

lemma set_trim: "set (trim s) \<subseteq> set s"
proof -
  have "set (trim s) \<subseteq> set (dropWhile is_space s)"
    unfolding trim_def using set_dropWhileD by fastforce
  also have "\<dots> \<subseteq> set s" using set_dropWhileD by fastforce
  finally show ?thesis .
qed

lemma set_replace_ws_runs: "set (replace_ws_runs t) \<subseteq> insert 0x20 (set t)"
proof (induction t rule: replace_ws_runs.induct)
  case 1
  show ?case by simp
next
  case (2 c cs)
  show ?case
  proof (cases "is_space c")
    case True
    with "2.IH"(1) have "set (replace_ws_runs (dropWhile is_space cs)) \<subseteq>
        insert 0x20 (set (dropWhile is_space cs))" by simp
    moreover have "set (dropWhile is_space cs) \<subseteq> set cs" using set_dropWhileD by fastforce
    ultimately show ?thesis using True by auto
  next
    case False
    with "2.IH"(2) show ?thesis by auto
  qed
qed

lemma kept_space: "kept 0x20"
  by (simp add: kept_def is_space_def)

lemma single_spaced_lower: "single_spaced (map lower_unit u) = single_spaced u"
  by (induction u rule: single_spaced.induct) simp_all

lemma normal_form_fixpoint:
  assumes "single_spaced u" "u = [] \<or> \<not> is_space (hd u)" "\<forall>c \<in> set u. kept c"
  shows "preprocessText (map lower_unit u) = map lower_unit u"
proof -
  let ?t = "map lower_unit u"
  have s: "single_spaced ?t" using assms(1) by (simp add: single_spaced_lower)
  have h: "?t = [] \<or> \<not> is_space (hd ?t)" using assms(2) by (cases u) simp_all
  have k: "\<forall>c \<in> set ?t. kept c" using assms(3) by (auto intro: kept_lower)
  have "trim ?t = ?t" using s h by (rule trim_fixpoint)
  moreover have "replace_ws_runs ?t = ?t" using s by (rule single_spaced_fixpoint)
  moreover have "remove_special ?t = ?t" using k by (simp add: remove_special_def)
  moreover have "toLowerCase ?t = ?t" by (simp add: toLowerCase_def)
  ultimately show ?thesis by (simp add: preprocessText_def)
qed

text \<open>
  What does hold: a string with no code unit outside the kept class is normalised in one
  pass, and every string in two.
\<close>

lemma preprocessText_idempotent_on_kept:
  assumes "\<forall>c \<in> set text. kept c"
  shows "preprocessText (preprocessText text) = preprocessText text"
proof -
  let ?u = "replace_ws_runs (trim text)"
  have e: "trim text = [] \<or> (\<not> is_space (hd (trim text)) \<and> \<not> is_space (last (trim text)))"
    by (rule trim_edges)
  then have s: "single_spaced ?u" by (intro single_spaced_replace_ws_runs) auto
  have h: "?u = [] \<or> \<not> is_space (hd ?u)"
    using e by (cases "trim text = []") (simp_all add: hd_replace_ws_runs)
  have k: "\<forall>c \<in> set ?u. kept c"
    using assms set_trim [of "text"] set_replace_ws_runs [of "trim text"] kept_space by auto
  then have "remove_special ?u = ?u" by (simp add: remove_special_def)
  then have "preprocessText text = map lower_unit ?u"
    by (simp add: preprocessText_def toLowerCase_def)
  then show ?thesis using normal_form_fixpoint [OF s h k] by simp
qed

lemma preprocessText_kept: "\<forall>c \<in> set (preprocessText s). kept c"
  by (auto simp: preprocessText_def toLowerCase_def remove_special_def intro: kept_lower)

lemma preprocessText_stable_after_second_pass:
  "preprocessText (preprocessText (preprocessText s)) = preprocessText (preprocessText s)"
  using preprocessText_kept [of s] by (rule preprocessText_idempotent_on_kept)

text \<open>
  Claim C5. The claim says that normalising a normalised text gives the same string, for
  every string. The code replaces the whitespace runs before it removes the special
  characters, so a removed character leaves the spaces around it behind: \<open>a # b\<close>
  becomes \<open>a\<close>, two spaces, \<open>b\<close>, and \<open># a #\<close> becomes \<open>a\<close> with a space on
  either side. Neither output is trimmed and single-spaced, and a second pass changes both.
\<close>

theorem preprocessText_not_idempotent:
  "preprocessText (js ''a # b'') = js ''a  b'' \<and>
   preprocessText (js ''a  b'') = js ''a b'' \<and>
   preprocessText (js ''# a #'') = js '' a '' \<and>
   preprocessText (js '' a '') = js ''a'' \<and>
   preprocessText (preprocessText (js ''a # b'')) \<noteq> preprocessText (js ''a # b'')"
  by (simp add: text_defs)

section \<open>Loading the model\<close>

lemma run_snoc: "run (evs @ [e]) y = step e (run evs y)"
  by (simp add: run_def)

lemma load_inv_step:
  assumes "load_inv n y"
  shows "load_inv (if is_Settle e then n + 1 else n) (step e y)"
proof (cases e)
  case (Call_initializeModel c)
  then show ?thesis
    using assms by (auto simp: load_inv_def initializeModel_enter_def split: if_splits)
next
  case (Call_generateEmbedding c t)
  then show ?thesis
    using assms by (auto simp: load_inv_def initializeModel_enter_def split: if_splits)
next
  case (Resume c)
  then show ?thesis
    using assms by (auto simp: load_inv_def split: option.splits)
next
  case (Settle r)
  then show ?thesis
    using assms
    by (auto simp: load_inv_def initializeModel_resume_def split: option.splits sum.splits prod.splits)
qed

lemma load_inv_run: "load_inv (length (filter is_Settle evs)) (run evs start)"
proof (induction evs rule: rev_induct)
  case Nil
  show ?case by (simp add: run_def start_def load_inv_def new_EmbeddingService_def)
next
  case (snoc e evs)
  from load_inv_step [OF snoc, of e] show ?case
    by (cases "is_Settle e") (simp_all add: run_snoc)
qed

text \<open>
  Claim C3, amended. \<open>initializeModel\<close> is idempotent and starts no second load: a
  call made while the model is loaded or a load is in progress changes nothing and returns
  at once, without waiting for the load; and along every schedule a load starts only after
  all earlier loads have settled. A caller of \<open>generateEmbedding\<close> that arrives during
  loading and resumes before the load settles fails with \<open>Embedding model not
  initialized\<close>.
\<close>

theorem initializeModel_guard:
  "(model (svc y) \<noteq> None \<or> isLoading (svc y) \<longrightarrow>
      step (Call_initializeModel c) y = y\<lparr>log := log y @ [(c, InitResolved)]\<rparr>) \<and>
   (model (svc y) = None \<and> isLoading (svc y) \<and> map_of (suspended y) c = None \<longrightarrow>
      run [Call_generateEmbedding c t, Resume c] y =
        y\<lparr>log := log y @ [(c, EmbedRejected (Error (js ''Embedding model not initialized'')))]\<rparr>) \<and>
   loads (run evs start) \<le> length (filter is_Settle evs) + 1"
proof (intro conjI impI)
  assume "model (svc y) \<noteq> None \<or> isLoading (svc y)"
  then show "step (Call_initializeModel c) y = y\<lparr>log := log y @ [(c, InitResolved)]\<rparr>"
    by (auto simp: initializeModel_enter_def)
next
  assume a: "model (svc y) = None \<and> isLoading (svc y) \<and> map_of (suspended y) c = None"
  then have f: "filter (\<lambda>p. fst p \<noteq> c) (suspended y) = suspended y"
    by (auto simp: filter_id_conv map_of_eq_None_iff intro: rev_image_eqI)
  have m: "map_of (suspended y @ [(c, t)]) c = Some t"
    using a by (simp add: map_add_Some_iff)
  show "run [Call_generateEmbedding c t, Resume c] y =
        y\<lparr>log := log y @ [(c, EmbedRejected (Error (js ''Embedding model not initialized'')))]\<rparr>"
    using a f m
    by (simp add: run_def initializeModel_enter_def generateEmbedding_checked_def embed_outcome_def)
next
  show "loads (run evs start) \<le> length (filter is_Settle evs) + 1"
    using load_inv_run [of evs] by (simp add: load_inv_def split: if_splits)
qed

text \<open>
  An instance: a first caller has started the load; a second caller of
  \<open>initializeModel\<close> returns with one load started, and a caller of
  \<open>generateEmbedding\<close> is rejected. In the last schedule the first load fails and a
  third caller starts the second load.
\<close>

theorem initializeModel_guard_witness:
  "isLoading (svc (run [Call_initializeModel 0] start)) \<and>
   model (svc (run [Call_initializeModel 0] start)) = None \<and>
   map_of (suspended (run [Call_initializeModel 0] start)) 1 = None \<and>
   loads (step (Call_initializeModel 1) (run [Call_initializeModel 0] start)) = 1 \<and>
   log (step (Call_initializeModel 1) (run [Call_initializeModel 0] start)) = [(1, InitResolved)] \<and>
   log (run [Call_generateEmbedding 1 (Some (js ''identity'')), Resume 1]
          (run [Call_initializeModel 0] start)) =
     [(1, EmbedRejected (Error (js ''Embedding model not initialized'')))] \<and>
   loads (run [Call_initializeModel 0, Call_initializeModel 1, Settle (Inl llm_overloaded),
               Call_initializeModel 2] start) \<le> 2"
proof -
  let ?y = "run [Call_initializeModel 0] start"
  have h: "isLoading (svc ?y) \<and> model (svc ?y) = None \<and> map_of (suspended ?y) 1 = None"
    by (simp add: run_defs)
  have l: "loads ?y = 1 \<and> log ?y = []"
    by (simp add: run_defs)
  show ?thesis
    using h l
      initializeModel_guard [of ?y 1 "Some (js ''identity'')"
        "[Call_initializeModel 0, Call_initializeModel 1, Settle (Inl llm_overloaded),
          Call_initializeModel 2]"]
    by simp
qed

text \<open>
  The claim as it was stated fails in its waiting part. The second call of
  \<open>initializeModel\<close> has returned while the model is still absent and the load still in
  progress. A caller of \<open>generateEmbedding\<close> that arrived during loading is rejected,
  although the load in flight succeeds afterwards.
\<close>

theorem initializeModel_guard_counterexample:
  "log (run [Call_initializeModel 0, Call_initializeModel 1] start) = [(1, InitResolved)] \<and>
   model (svc (run [Call_initializeModel 0, Call_initializeModel 1] start)) = None \<and>
   isLoading (svc (run [Call_initializeModel 0, Call_initializeModel 1] start)) \<and>
   log (run [Call_initializeModel 0, Call_generateEmbedding 1 (Some (js ''identity'')), Resume 1,
             Settle (Inr sample_pipeline)] start) =
     [(1, EmbedRejected (Error (js ''Embedding model not initialized''))), (0, InitResolved)] \<and>
   model (svc (run [Call_initializeModel 0, Call_generateEmbedding 1 (Some (js ''identity'')),
             Resume 1, Settle (Inr sample_pipeline)] start)) = Some sample_pipeline"
  by (simp add: run_defs)

end
